theory Spec2Isabelle
  imports Main
begin

section \<open>Values and exceptions of the Python program\<close>

text \<open>
  The program handles the decoded body of a GraphQL response: Python dictionaries, lists,
  strings, integers, booleans and \<^verbatim>\<open>None\<close>, as \<^verbatim>\<open>response.json()\<close> builds them.
  A dictionary is an association list of its items; lookup reads the first item of a key
  and the number of keys counts each key once. Strings are lists of 8-bit characters.
  Numbers with a fraction or an exponent (Python floats in the decoded body) are not part
  of this value type: the query asks for fields the API declares as integers.
\<close>

datatype json =
    JNull
  | JBool bool
  | JInt int
  | JStr string
  | JList "json list"
  | JObj "(string \<times> json) list"

datatype pyexc =
    AttributeError
  | TypeError
  | ValueError
  | KeyError
  | IndexError
  | OverflowError
  | ZeroDivisionError

text \<open>Truth value of an object, as \<^verbatim>\<open>if x\<close>, \<^verbatim>\<open>x and y\<close> and \<^verbatim>\<open>not x\<close> test it.\<close>

fun truthy :: "json \<Rightarrow> bool" where
  "truthy JNull = False"
| "truthy (JBool b) = b"
| "truthy (JInt n) = (n \<noteq> 0)"
| "truthy (JStr s) = (s \<noteq> [])"
| "truthy (JList xs) = (xs \<noteq> [])"
| "truthy (JObj kvs) = (kvs \<noteq> [])"

text \<open>\<^verbatim>\<open>x.get(k, d)\<close>: only a dictionary has the method.\<close>

fun py_get :: "json \<Rightarrow> string \<Rightarrow> json \<Rightarrow> pyexc + json" where
  "py_get (JObj kvs) k d = Inr (case map_of kvs k of None \<Rightarrow> d | Some v \<Rightarrow> v)"
| "py_get _ k d = Inl AttributeError"

text \<open>
  \<^verbatim>\<open>x[k]\<close> with a string key: a missing key of a dictionary is a KeyError, a list or a
  string indexed by a string is a TypeError, as is subscripting any other object.
\<close>

fun py_getitem :: "json \<Rightarrow> string \<Rightarrow> pyexc + json" where
  "py_getitem (JObj kvs) k = (case map_of kvs k of None \<Rightarrow> Inl KeyError | Some v \<Rightarrow> Inr v)"
| "py_getitem _ k = Inl TypeError"

text \<open>The items of a dictionary, each key once, in the order of first appearance.\<close>

fun dict_items_from :: "string list \<Rightarrow> (string \<times> 'a) list \<Rightarrow> (string \<times> 'a) list" where
  "dict_items_from seen [] = []"
| "dict_items_from seen ((k, v) # kvs) =
     (if k \<in> set seen then dict_items_from seen kvs
      else (k, v) # dict_items_from (k # seen) kvs)"

definition dict_items :: "(string \<times> 'a) list \<Rightarrow> (string \<times> 'a) list" where
  "dict_items kvs = dict_items_from [] kvs"

text \<open>
  \<^verbatim>\<open>for x in v\<close>: a list yields its elements, a string its characters, a dictionary its
  keys; the other objects are not iterable.
\<close>

fun py_iter :: "json \<Rightarrow> pyexc + json list" where
  "py_iter (JList xs) = Inr xs"
| "py_iter (JStr s) = Inr (map (\<lambda>c. JStr [c]) s)"
| "py_iter (JObj kvs) = Inr (map (\<lambda>kv. JStr (fst kv)) (dict_items kvs))"
| "py_iter _ = Inl TypeError"

text \<open>\<^verbatim>\<open>len(v)\<close>.\<close>

fun py_len :: "json \<Rightarrow> pyexc + int" where
  "py_len (JList xs) = Inr (int (length xs))"
| "py_len (JStr s) = Inr (int (length s))"
| "py_len (JObj kvs) = Inr (int (length (dict_items kvs)))"
| "py_len _ = Inl TypeError"

text \<open>
  \<^verbatim>\<open>sum(g)\<close> starts from the integer 0 and adds each element with \<^verbatim>\<open>+\<close>: an integer
  or a boolean (a subclass of int) is added, anything else is a TypeError.
\<close>

fun py_sum_from :: "int \<Rightarrow> json list \<Rightarrow> pyexc + int" where
  "py_sum_from acc [] = Inr acc"
| "py_sum_from acc (JInt n # vs) = py_sum_from (acc + n) vs"
| "py_sum_from acc (JBool b # vs) = py_sum_from (acc + (if b then 1 else 0)) vs"
| "py_sum_from acc (_ # vs) = Inl TypeError"

definition py_sum :: "json list \<Rightarrow> pyexc + int" where
  "py_sum vs = py_sum_from 0 vs"

text \<open>Running a fallible step over a list, stopping at the first exception.\<close>

fun map_exc :: "('a \<Rightarrow> pyexc + 'b) \<Rightarrow> 'a list \<Rightarrow> pyexc + 'b list" where
  "map_exc f [] = Inr []"
| "map_exc f (x # xs) =
     (case f x of
        Inl e \<Rightarrow> Inl e
      | Inr y \<Rightarrow> (case map_exc f xs of Inl e \<Rightarrow> Inl e | Inr ys \<Rightarrow> Inr (y # ys)))"

section \<open>Strings\<close>

text \<open>\<^verbatim>\<open>s.replace("Z", "+00:00")\<close>: every occurrence of the character is replaced.\<close>

definition replace_Z :: "string \<Rightarrow> string" where
  "replace_Z s = concat (map (\<lambda>c. if c = CHR ''Z'' then ''+00:00'' else [c]) s)"

text \<open>\<^verbatim>\<open>s.lower()\<close> on the ASCII letters; the other characters are kept.\<close>

definition lower_char :: "char \<Rightarrow> char" where
  "lower_char c =
     (case map_of (zip ''ABCDEFGHIJKLMNOPQRSTUVWXYZ'' ''abcdefghijklmnopqrstuvwxyz'') c of
        None \<Rightarrow> c
      | Some l \<Rightarrow> l)"

definition lower :: "string \<Rightarrow> string" where
  "lower s = map lower_char s"

text \<open>\<^verbatim>\<open>sub in s\<close> on strings: \<^verbatim>\<open>sub\<close> occurs in \<^verbatim>\<open>s\<close> as a contiguous block.\<close>

fun starts_with :: "string \<Rightarrow> string \<Rightarrow> bool" where
  "starts_with s [] = True"
| "starts_with [] (c # cs) = False"
| "starts_with (d # ds) (c # cs) = (d = c \<and> starts_with ds cs)"

fun contains :: "string \<Rightarrow> string \<Rightarrow> bool" where
  "contains [] sub = (sub = [])"
| "contains (c # cs) sub = (starts_with (c # cs) sub \<or> contains cs sub)"

section \<open>Integers as text\<close>

definition digit_char :: "nat \<Rightarrow> char" where
  "digit_char d = ''0123456789'' ! (d mod 10)"

function str_nat :: "nat \<Rightarrow> string" where
  "str_nat n = (if n < 10 then [digit_char n] else str_nat (n div 10) @ [digit_char (n mod 10)])"
  by pat_completeness auto
termination
  by (relation "measure id") auto

declare str_nat.simps [simp del]

text \<open>\<^verbatim>\<open>str(n)\<close> for an integer.\<close>

definition str_int :: "int \<Rightarrow> string" where
  "str_int i = (if i < 0 then CHR ''-'' # str_nat (nat (- i)) else str_nat (nat i))"

text \<open>
  \<^verbatim>\<open>f"{n:,}"\<close>: the decimal digits in groups of three from the right, separated by
  commas, after the sign.
\<close>

function group3 :: "nat \<Rightarrow> string" where
  "group3 n =
     (if n < 1000 then str_nat n
      else group3 (n div 1000) @ CHR '','' #
           [digit_char (n div 100), digit_char (n div 10), digit_char n])"
  by pat_completeness auto
termination
  by (relation "measure id") auto

declare group3.simps [simp del]

definition format_commas :: "int \<Rightarrow> string" where
  "format_commas i = (if i < 0 then CHR ''-'' # group3 (nat (- i)) else group3 (nat i))"

text \<open>\<^verbatim>\<open>sep.join(parts)\<close>.\<close>

fun join :: "string \<Rightarrow> string list \<Rightarrow> string" where
  "join sep [] = []"
| "join sep [p] = p"
| "join sep (p # q # ps) = p @ sep @ join sep (q # ps)"

text \<open>
  \<^verbatim>\<open>repr(s)\<close> of a string: single quotes, unless the string has a single quote and
  no double quote; the quote and the backslash are escaped, tab, newline and carriage
  return have their letter, and a character that is not printable is written
  \<^verbatim>\<open>\xhh\<close>.
\<close>

definition hex_digit :: "nat \<Rightarrow> char" where
  "hex_digit d = ''0123456789abcdef'' ! (d mod 16)"

definition repr_char :: "char \<Rightarrow> char \<Rightarrow> string" where
  "repr_char q c =
     (let n = (of_char c :: nat) in
      if c = q \<or> c = CHR 0x5C then [CHR 0x5C, c]
      else if n = 9 then [CHR 0x5C, CHR ''t'']
      else if n = 10 then [CHR 0x5C, CHR ''n'']
      else if n = 13 then [CHR 0x5C, CHR ''r'']
      else if 32 \<le> n \<and> n < 127 then [c]
      else if 161 \<le> n \<and> n \<noteq> 173 then [c]
      else [CHR 0x5C, CHR ''x'', hex_digit (n div 16), hex_digit n])"

definition repr_str :: "string \<Rightarrow> string" where
  "repr_str s =
     (let q = (if CHR 0x27 \<in> set s \<and> CHR 0x22 \<notin> set s then CHR 0x22 else CHR 0x27)
      in q # concat (map (repr_char q) s) @ [q])"

text \<open>\<^verbatim>\<open>repr(v)\<close> and \<^verbatim>\<open>str(v)\<close>: they differ on a string only.\<close>

fun py_repr :: "json \<Rightarrow> string" where
  "py_repr JNull = ''None''"
| "py_repr (JBool b) = (if b then ''True'' else ''False'')"
| "py_repr (JInt n) = str_int n"
| "py_repr (JStr s) = repr_str s"
| "py_repr (JList xs) = ''['' @ join '', '' (map py_repr xs) @ '']''"
| "py_repr (JObj kvs) =
     ''{'' @ join '', ''
       (map snd (dict_items
          (map (\<lambda>kv. (fst kv, repr_str (fst kv) @ '': '' @ py_repr (snd kv))) kvs)))
     @ ''}''"

fun py_str :: "json \<Rightarrow> string" where
  "py_str (JStr s) = s"
| "py_str v = py_repr v"

section \<open>Floating-point division and its formatting\<close>

text \<open>
  \<^verbatim>\<open>a / b\<close> on two integers is the binary64 number nearest to the exact quotient, ties
  to the even significand; a quotient that rounds to \<^verbatim>\<open>2 ** 1024\<close> or more is an
  OverflowError, a zero divisor a ZeroDivisionError. A finite binary64 number is kept
  exactly, as a sign, a significand and a binary exponent: its value is
  \<open>mant * 2 ^ expo\<close>, negated when \<open>negative\<close>.
\<close>

record pyfloat =
  negative :: bool
  mant :: nat
  expo :: int

definition round_half_even :: "nat \<Rightarrow> nat \<Rightarrow> nat" where
  "round_half_even num den =
     (let q = num div den; r = num mod den in
      if 2 * r < den then q
      else if den < 2 * r then q + 1
      else if even q then q else q + 1)"

function bit_length :: "nat \<Rightarrow> nat" where
  "bit_length n = (if n = 0 then 0 else Suc (bit_length (n div 2)))"
  by pat_completeness auto
termination
  by (relation "measure id") auto

declare bit_length.simps [simp del]

text \<open>The integer \<open>e\<close> with \<open>2 ^ e \<le> n / d < 2 ^ (e + 1)\<close>, for positive \<open>n\<close> and \<open>d\<close>.\<close>

definition floor_log2_quot :: "nat \<Rightarrow> nat \<Rightarrow> int" where
  "floor_log2_quot n d =
     (let k = int (bit_length n) - int (bit_length d) in
      if (if 0 \<le> k then d * 2 ^ nat k \<le> n else d \<le> n * 2 ^ nat (- k)) then k else k - 1)"

definition py_truediv :: "int \<Rightarrow> int \<Rightarrow> pyexc + pyfloat" where
  "py_truediv a b =
     (if b = 0 then Inl ZeroDivisionError
      else
        let neg = ((a < 0) \<noteq> (b < 0)); n = nat \<bar>a\<bar>; d = nat \<bar>b\<bar> in
        if n = 0 then Inr \<lparr>negative = neg, mant = 0, expo = 0\<rparr>
        else
          let e = floor_log2_quot n d;
              p = max e (- 1022) - 52;
              m = (if 0 \<le> p then round_half_even n (d * 2 ^ nat p)
                   else round_half_even (n * 2 ^ nat (- p)) d)
          in if 0 \<le> p \<and> 2 ^ 1024 \<le> m * 2 ^ nat p then Inl OverflowError
             else Inr \<lparr>negative = neg, mant = m, expo = p\<rparr>)"

text \<open>
  \<^verbatim>\<open>f"{x:.1f}"\<close>: the exact value of \<^verbatim>\<open>x\<close> rounded to tenths, ties to the even
  tenth, written with the sign, the integer part, a point and one digit.
\<close>

definition format_1f :: "pyfloat \<Rightarrow> string" where
  "format_1f x =
     (let t = (if 0 \<le> expo x then 10 * mant x * 2 ^ nat (expo x)
               else round_half_even (10 * mant x) (2 ^ nat (- expo x)))
      in (if negative x then ''-'' else []) @ str_nat (t div 10) @ ''.'' @ [digit_char (t mod 10)])"

section \<open>Timestamps\<close>

text \<open>
  The value of \<^verbatim>\<open>datetime.fromisoformat\<close>: the calendar fields as written in the text and
  the offset from UTC in microseconds (\<open>None\<close> when the text carries no offset).
\<close>

record datetime =
  year :: int
  month :: int
  day :: int
  hour :: int
  minute :: int
  second :: int
  microsecond :: int
  utcoffset :: "int option"

definition is_leap :: "int \<Rightarrow> bool" where
  "is_leap y = (y mod 4 = 0 \<and> (y mod 100 \<noteq> 0 \<or> y mod 400 = 0))"

definition days_in_month :: "int \<Rightarrow> int \<Rightarrow> int" where
  "days_in_month y m =
     (if m = 2 then (if is_leap y then 29 else 28)
      else if m = 4 \<or> m = 6 \<or> m = 9 \<or> m = 11 then 30 else 31)"

definition digit_val :: "char \<Rightarrow> nat option" where
  "digit_val c = (if c \<in> set ''0123456789'' then Some (of_char c - 48) else None)"

fun digits_from :: "nat \<Rightarrow> string \<Rightarrow> nat option" where
  "digits_from acc [] = Some acc"
| "digits_from acc (c # cs) =
     (case digit_val c of None \<Rightarrow> None | Some d \<Rightarrow> digits_from (10 * acc + d) cs)"

definition parse_digits :: "string \<Rightarrow> int option" where
  "parse_digits s = map_option int (digits_from 0 s)"

text \<open>
  The library function is not part of the repository. It is modelled on the format its
  documentation gives for every version that has it, the one \<^verbatim>\<open>datetime.isoformat\<close>
  writes: \<^verbatim>\<open>YYYY-MM-DD[*HH[:MM[:SS[.fff[fff]]]][+HH:MM[:SS[.ffffff]]]]\<close>, where \<^verbatim>\<open>*\<close> is
  any one character and the sign of the offset is \<^verbatim>\<open>+\<close> or \<^verbatim>\<open>-\<close>. A text outside this
  format, a field out of its range or an offset of 24 hours or more is a ValueError.
  (Later versions of the library read further ISO 8601 spellings as well.)
\<close>

definition parse_isoformat_date :: "string \<Rightarrow> (int \<times> int \<times> int) option" where
  "parse_isoformat_date s =
     (if length s = 10 \<and> s ! 4 = CHR ''-'' \<and> s ! 7 = CHR ''-'' then
        (case (parse_digits (take 4 s), parse_digits (take 2 (drop 5 s)), parse_digits (drop 8 s)) of
           (Some y, Some m, Some d) \<Rightarrow> Some (y, m, d)
         | _ \<Rightarrow> None)
      else None)"

definition parse_hh_mm_ss_ff :: "string \<Rightarrow> (int \<times> int \<times> int \<times> int) option" where
  "parse_hh_mm_ss_ff t =
     (let n = length t;
          hh = parse_digits (take 2 t);
          mm = (if 5 \<le> n then parse_digits (take 2 (drop 3 t)) else Some 0);
          ss = (if 8 \<le> n then parse_digits (take 2 (drop 6 t)) else Some 0);
          ff = (if n = 12 then map_option (\<lambda>f. f * 1000) (parse_digits (drop 9 t))
                else if n = 15 then parse_digits (drop 9 t) else Some 0)
      in if n = 2 \<or> (n = 5 \<and> t ! 2 = CHR '':'')
            \<or> (n = 8 \<and> t ! 2 = CHR '':'' \<and> t ! 5 = CHR '':'')
            \<or> ((n = 12 \<or> n = 15) \<and> t ! 2 = CHR '':'' \<and> t ! 5 = CHR '':'' \<and> t ! 8 = CHR ''.'')
         then (case (hh, mm, ss, ff) of
                 (Some h, Some m, Some s, Some f) \<Rightarrow> Some (h, m, s, f)
               | _ \<Rightarrow> None)
         else None)"

definition is_sign :: "char \<Rightarrow> bool" where
  "is_sign c = (c = CHR ''+'' \<or> c = CHR ''-'')"

definition parse_isoformat_time :: "string \<Rightarrow> ((int \<times> int \<times> int \<times> int) \<times> int option) option" where
  "parse_isoformat_time t =
     (let timestr = takeWhile (\<lambda>c. \<not> is_sign c) t;
          rest = dropWhile (\<lambda>c. \<not> is_sign c) t
      in case parse_hh_mm_ss_ff timestr of
           None \<Rightarrow> None
         | Some comps \<Rightarrow>
            (case rest of
               [] \<Rightarrow> Some (comps, None)
             | sign # tzstr \<Rightarrow>
                (if length tzstr = 5 \<or> length tzstr = 8 \<or> length tzstr = 15 then
                   (case parse_hh_mm_ss_ff tzstr of
                      None \<Rightarrow> None
                    | Some (h, m, s, f) \<Rightarrow>
                        Some (comps,
                          Some ((if sign = CHR ''-'' then - 1 else 1)
                                * ((h * 3600 + m * 60 + s) * 1000000 + f))))
                 else None)))"

definition fromisoformat :: "string \<Rightarrow> pyexc + datetime" where
  "fromisoformat s =
     (if length s < 10 then Inl ValueError
      else
        case parse_isoformat_date (take 10 s) of
          None \<Rightarrow> Inl ValueError
        | Some (y, mo, d) \<Rightarrow>
           (case (if length s = 10 then Some ((0, 0, 0, 0), None)
                  else parse_isoformat_time (drop 11 s)) of
              None \<Rightarrow> Inl ValueError
            | Some ((h, mi, sec, us), off) \<Rightarrow>
               (if 1 \<le> y \<and> y \<le> 9999 \<and> 1 \<le> mo \<and> mo \<le> 12
                   \<and> 1 \<le> d \<and> d \<le> days_in_month y mo
                   \<and> h \<le> 23 \<and> mi \<le> 59 \<and> sec \<le> 59
                   \<and> (case off of None \<Rightarrow> True | Some ofs \<Rightarrow> \<bar>ofs\<bar> < 86400 * 1000000)
                then Inr \<lparr>year = y, month = mo, day = d, hour = h, minute = mi,
                          second = sec, microsecond = us, utcoffset = off\<rparr>
                else Inl ValueError)))"

text \<open>\<^verbatim>\<open>v.replace("Z", "+00:00")\<close>: only a string has the method.\<close>

fun py_replace_Z :: "json \<Rightarrow> pyexc + string" where
  "py_replace_Z (JStr s) = Inr (replace_Z s)"
| "py_replace_Z _ = Inl AttributeError"

section \<open>The application state and \<^verbatim>\<open>process_stats\<close>\<close>

record state =
  username :: string
  is_loading :: bool
  error_message :: "string option"
  user_data :: json
  stats_items :: "(string \<times> string) list list"
  user_display_name :: json
  posts_2024 :: "json list"
  post_count :: int

text \<open>
  The condition of the list comprehension for one post:
  \<^verbatim>\<open>post.get("publishedAt") and
  datetime.fromisoformat(post["publishedAt"].replace("Z", "+00:00")).year == 2024\<close>.
\<close>

definition keep_post :: "json \<Rightarrow> pyexc + bool" where
  "keep_post post =
     (case py_get post ''publishedAt'' JNull of
        Inl e \<Rightarrow> Inl e
      | Inr v \<Rightarrow>
         if \<not> truthy v then Inr False
         else
           (case py_getitem post ''publishedAt'' of
              Inl e \<Rightarrow> Inl e
            | Inr w \<Rightarrow>
               (case py_replace_Z w of
                  Inl e \<Rightarrow> Inl e
                | Inr r \<Rightarrow>
                   (case fromisoformat r of
                      Inl e \<Rightarrow> Inl e
                    | Inr dt \<Rightarrow> Inr (year dt = 2024)))))"

fun filter_exc :: "('a \<Rightarrow> pyexc + bool) \<Rightarrow> 'a list \<Rightarrow> pyexc + 'a list" where
  "filter_exc f [] = Inr []"
| "filter_exc f (x # xs) =
     (case f x of
        Inl e \<Rightarrow> Inl e
      | Inr b \<Rightarrow>
         (case filter_exc f xs of
            Inl e \<Rightarrow> Inl e
          | Inr ys \<Rightarrow> Inr (if b then x # ys else ys)))"

text \<open>\<^verbatim>\<open>all_posts = user_data.get("posts", {}).get("nodes", [])\<close>.\<close>

definition all_posts :: "json \<Rightarrow> pyexc + json" where
  "all_posts ud =
     (case py_get ud ''posts'' (JObj []) of
        Inl e \<Rightarrow> Inl e
      | Inr posts \<Rightarrow> py_get posts ''nodes'' (JList []))"

text \<open>The comprehension \<^verbatim>\<open>[post for post in all_posts if ...]\<close>.\<close>

definition select_posts_2024 :: "json \<Rightarrow> pyexc + json list" where
  "select_posts_2024 ud =
     (case all_posts ud of
        Inl e \<Rightarrow> Inl e
      | Inr ap \<Rightarrow>
         (case py_iter ap of
            Inl e \<Rightarrow> Inl e
          | Inr nodes \<Rightarrow> filter_exc keep_post nodes))"

text \<open>\<^verbatim>\<open>sum(post.get(key, 0) for post in posts)\<close>.\<close>

definition sum_field :: "string \<Rightarrow> json list \<Rightarrow> pyexc + int" where
  "sum_field key posts =
     (case map_exc (\<lambda>post. py_get post key (JInt 0)) posts of
        Inl e \<Rightarrow> Inl e
      | Inr vs \<Rightarrow> py_sum vs)"

text \<open>
  \<^verbatim>\<open>len(user_data.get("badges", [])) if user_data.get("badges") else 0\<close>: the condition
  is evaluated first.
\<close>

definition count_badges :: "json \<Rightarrow> pyexc + int" where
  "count_badges ud =
     (case py_get ud ''badges'' JNull of
        Inl e \<Rightarrow> Inl e
      | Inr c \<Rightarrow>
         if truthy c then
           (case py_get ud ''badges'' (JList []) of Inl e \<Rightarrow> Inl e | Inr bs \<Rightarrow> py_len bs)
         else Inr 0)"

definition metric :: "string \<Rightarrow> string \<Rightarrow> string \<Rightarrow> (string \<times> string) list" where
  "metric t v d = [(''title'', t), (''value'', v), (''description'', d)]"

text \<open>
  The value of "Avg. Reactions":
  \<^verbatim>\<open>f"{total_reactions/self.post_count:.1f}" if self.post_count > 0 else "0"\<close>.
\<close>

definition avg_reactions :: "int \<Rightarrow> int \<Rightarrow> pyexc + string" where
  "avg_reactions total_reactions count =
     (if count > 0 then
        (case py_truediv total_reactions count of
           Inl e \<Rightarrow> Inl e
         | Inr x \<Rightarrow> Inr (format_1f x))
      else Inr ''0'')"

definition build_stats_items ::
  "int \<Rightarrow> int \<Rightarrow> int \<Rightarrow> json \<Rightarrow> int \<Rightarrow> pyexc + (string \<times> string) list list" where
  "build_stats_items count total_views total_reactions total_followers total_badges =
     (case avg_reactions total_reactions count of
        Inl e \<Rightarrow> Inl e
      | Inr avg \<Rightarrow>
         Inr [metric ''Total Articles'' (str_int count) ''Articles published in 2024'',
              metric ''Total Views'' (format_commas total_views) ''Content views in 2024'',
              metric ''Total Reactions'' (str_int total_reactions) ''Reactions in 2024'',
              metric ''Followers'' (py_str total_followers) ''Total followers'',
              metric ''Badges Earned'' (str_int total_badges) ''Total badges collected'',
              metric ''Avg. Reactions'' avg ''Average reactions per post''])"

text \<open>
  The body of the \<^verbatim>\<open>try\<close> block. An exception leaves the block with the state as the
  assignments before it have made it.
\<close>

definition process_stats_try :: "state \<Rightarrow> json \<Rightarrow> (pyexc \<times> state) + state" where
  "process_stats_try st0 ud =
     (let st1 = st0\<lparr>user_data := ud\<rparr> in
      case select_posts_2024 ud of
        Inl e \<Rightarrow> Inl (e, st1)
      | Inr posts \<Rightarrow>
         let st2 = st1\<lparr>posts_2024 := posts\<rparr>;
             st3 = st2\<lparr>post_count := int (length (posts_2024 st2))\<rparr>
         in
         (case sum_field ''views'' (posts_2024 st3) of
            Inl e \<Rightarrow> Inl (e, st3)
          | Inr total_views \<Rightarrow>
         (case sum_field ''reactionCount'' (posts_2024 st3) of
            Inl e \<Rightarrow> Inl (e, st3)
          | Inr total_reactions \<Rightarrow>
         (case py_get ud ''followersCount'' (JInt 0) of
            Inl e \<Rightarrow> Inl (e, st3)
          | Inr total_followers \<Rightarrow>
         (case count_badges ud of
            Inl e \<Rightarrow> Inl (e, st3)
          | Inr total_badges \<Rightarrow>
         (case py_get ud ''username'' (JStr []) of
            Inl e \<Rightarrow> Inl (e, st3)
          | Inr name \<Rightarrow>
             let st4 = st3\<lparr>user_display_name := name\<rparr> in
             (case build_stats_items (post_count st4) total_views total_reactions
                     total_followers total_badges of
                Inl e \<Rightarrow> Inl (e, st4)
              | Inr items \<Rightarrow> Inr (st4\<lparr>stats_items := items\<rparr>))))))))"

text \<open>
  \<^verbatim>\<open>process_stats\<close>: the \<^verbatim>\<open>except Exception\<close> clause prints the exception and resets
  \<^verbatim>\<open>stats_items\<close> and \<^verbatim>\<open>post_count\<close>.
\<close>

definition process_stats :: "state \<Rightarrow> json \<Rightarrow> state" where
  "process_stats st ud =
     (case process_stats_try st ud of
        Inr st' \<Rightarrow> st'
      | Inl (e, st') \<Rightarrow> st'\<lparr>stats_items := [], post_count := 0\<rparr>)"

section \<open>The request and \<^verbatim>\<open>handle_submit\<close>\<close>

definition HASHNODE_API_URL :: string where
  "HASHNODE_API_URL = ''https://gql.hashnode.com''"

definition USER_STATS_QUERY :: string where
  "USER_STATS_QUERY =
      ''\<newline>'' @
      ''query($username: String!) {\<newline>'' @
      ''    user(username: $username) {\<newline>'' @
      ''        username\<newline>'' @
      ''        followersCount\<newline>'' @
      ''        badges {\<newline>'' @
      ''            name\<newline>'' @
      ''        }\<newline>'' @
      ''        posts(page: 1, pageSize: 20) {\<newline>'' @
      ''            nodes {\<newline>'' @
      ''                title\<newline>'' @
      ''                publishedAt\<newline>'' @
      ''                views\<newline>'' @
      ''                reactionCount\<newline>'' @
      ''                replyCount    \<newline>'' @
      ''            }\<newline>'' @
      ''        }\<newline>'' @
      ''    }\<newline>'' @
      ''}\<newline>''"

text \<open>
  The call \<^verbatim>\<open>client.post(HASHNODE_API_URL, json={...}, headers=headers, timeout=30.0)\<close>
  and what comes back. The HTTP client is not part of the repository: the network is a
  function from the request to its outcome, which is either a transport failure (the
  client raises \<^verbatim>\<open>httpx.RequestError\<close>, with the text of the exception) or a response.
  A response has its status code, what \<^verbatim>\<open>response.json()\<close> gives (the decoded body or
  the exception of the decoder), and the text of the \<^verbatim>\<open>HTTPStatusError\<close> that
  \<^verbatim>\<open>raise_for_status\<close> raises for it.
\<close>

record request =
  url :: string
  query :: string
  variables :: "(string \<times> string) list"
  headers :: "(string \<times> string) list"
  timeout :: int

record response =
  status_code :: int
  json_result :: "pyexc + json"
  status_error_text :: string

datatype net_reply = Transport_failure string | Reply response

text \<open>
  \<^verbatim>\<open>raise_for_status\<close>, as the client documents it: it raises unless the status code is
  one of success, 200 to 299.
\<close>

definition is_success :: "int \<Rightarrow> bool" where
  "is_success code = (200 \<le> code \<and> code \<le> 299)"

text \<open>
  \<^verbatim>\<open>"errors" in data\<close>: a key of a dictionary, an element of a list, a part of a string;
  any other object is a TypeError.
\<close>

fun py_in :: "string \<Rightarrow> json \<Rightarrow> pyexc + bool" where
  "py_in k (JObj kvs) = Inr (k \<in> fst ` set kvs)"
| "py_in k (JList xs) = Inr (JStr k \<in> set xs)"
| "py_in k (JStr s) = Inr (contains s k)"
| "py_in k _ = Inl TypeError"

text \<open>
  \<^verbatim>\<open>v[0]\<close>: the first element of a list or the first character of a string, an
  IndexError when there is none; a dictionary with string keys has no key 0; any other
  object is a TypeError.
\<close>

fun py_first :: "json \<Rightarrow> pyexc + json" where
  "py_first (JList []) = Inl IndexError"
| "py_first (JList (x # xs)) = Inr x"
| "py_first (JStr []) = Inl IndexError"
| "py_first (JStr (c # cs)) = Inr (JStr [c])"
| "py_first (JObj kvs) = Inl KeyError"
| "py_first _ = Inl TypeError"

text \<open>\<^verbatim>\<open>v.lower()\<close>: only a string has the method.\<close>

fun py_lower :: "json \<Rightarrow> pyexc + string" where
  "py_lower (JStr s) = Inr (lower s)"
| "py_lower _ = Inl AttributeError"

text \<open>
  The part of the \<^verbatim>\<open>try\<close> block after \<^verbatim>\<open>raise_for_status\<close>: the result is the state and
  the value returned (a redirect to \<^verbatim>\<open>/stats\<close>, or nothing), or the exception raised.
  No assignment to the state comes before a point that can raise.
\<close>

definition graphql_errors :: "state \<Rightarrow> json \<Rightarrow> pyexc + (state \<times> string option)" where
  "graphql_errors st data =
     (case py_getitem data ''errors'' of
        Inl e \<Rightarrow> Inl e
      | Inr errs \<Rightarrow>
         (case py_first errs of
            Inl e \<Rightarrow> Inl e
          | Inr err \<Rightarrow>
             (case py_get err ''message'' (JStr ''Unknown GraphQL error'') of
                Inl e \<Rightarrow> Inl e
              | Inr message \<Rightarrow>
                 (case py_lower message of
                    Inl e \<Rightarrow> Inl e
                  | Inr low \<Rightarrow>
                     if contains low ''unauthorized'' \<or> contains low ''authentication''
                     then Inr (st\<lparr>error_message :=
                                 Some ''Invalid access token. Please check your configuration.''\<rparr>,
                               None)
                     else Inr (st\<lparr>error_message :=
                                 Some (''API Error: '' @ py_str message)\<rparr>,
                               None)))))"

definition user_or_not_found :: "state \<Rightarrow> json \<Rightarrow> pyexc + (state \<times> string option)" where
  "user_or_not_found st data =
     (case py_get data ''data'' (JObj []) of
        Inl e \<Rightarrow> Inl e
      | Inr d \<Rightarrow>
         (case py_get d ''user'' JNull of
            Inl e \<Rightarrow> Inl e
          | Inr u \<Rightarrow>
             if \<not> truthy u then Inr (st\<lparr>error_message := Some ''User not found''\<rparr>, None)
             else
               (case py_getitem data ''data'' of
                  Inl e \<Rightarrow> Inl e
                | Inr d2 \<Rightarrow>
                   (case py_getitem d2 ''user'' of
                      Inl e \<Rightarrow> Inl e
                    | Inr u2 \<Rightarrow> Inr (process_stats st u2, Some ''/stats'')))))"

definition handle_response :: "state \<Rightarrow> response \<Rightarrow> pyexc + (state \<times> string option)" where
  "handle_response st r =
     (case json_result r of
        Inl e \<Rightarrow> Inl e
      | Inr data \<Rightarrow>
         (case py_in ''errors'' data of
            Inl e \<Rightarrow> Inl e
          | Inr has_errors \<Rightarrow>
             if has_errors then graphql_errors st data else user_or_not_found st data))"

text \<open>The one request of the program, for an access token and a user name.\<close>

definition stats_request :: "string \<Rightarrow> string \<Rightarrow> request" where
  "stats_request tok name =
     \<lparr>url = HASHNODE_API_URL, query = USER_STATS_QUERY,
      variables = [(''username'', name)],
      headers = [(''Authorization'', tok)], timeout = 30\<rparr>"

text \<open>
  \<^verbatim>\<open>handle_submit\<close>. \<open>token\<close> is the module constant \<^verbatim>\<open>ACCESS_TOKEN\<close> (\<open>None\<close> when
  the environment has no such variable), \<open>net\<close> the network, \<open>describe\<close> the text the
  interpreter gives for an exception (\<^verbatim>\<open>str(e)\<close>). The result is the state, the value
  returned and the requests sent, in order.
\<close>

definition handle_submit ::
  "string option \<Rightarrow> (request \<Rightarrow> net_reply) \<Rightarrow> (pyexc \<Rightarrow> string) \<Rightarrow> state
     \<Rightarrow> state \<times> string option \<times> request list" where
  "handle_submit token net describe st =
     (if username st = [] then
        (st\<lparr>error_message := Some ''Please enter a username''\<rparr>, None, [])
      else if token = None \<or> token = Some [] then
        (st\<lparr>error_message := Some
           ''Access token not configured. Please check your .env file contains ACCESS_TOKEN''\<rparr>,
         None, [])
      else
        let st1 = st\<lparr>is_loading := True, error_message := None\<rparr>;
            req = stats_request (the token) (username st);
            res =
              (case net req of
                 Transport_failure detail \<Rightarrow>
                   (st1\<lparr>error_message := Some (''Network Error: '' @ detail)\<rparr>, None)
               | Reply r \<Rightarrow>
                   if \<not> is_success (status_code r) then
                     (if status_code r = 401 then
                        (st1\<lparr>error_message :=
                           Some ''Invalid access token. Please check your configuration.''\<rparr>,
                         None)
                      else if status_code r = 403 then
                        (st1\<lparr>error_message :=
                           Some ''Access forbidden. Please check your permissions.''\<rparr>,
                         None)
                      else
                        (st1\<lparr>error_message :=
                           Some (''HTTP Error: '' @ status_error_text r)\<rparr>,
                         None))
                   else
                     (case handle_response st1 r of
                        Inl e \<Rightarrow>
                          (st1\<lparr>error_message :=
                             Some (''An unexpected error occurred: '' @ describe e)\<rparr>,
                           None)
                      | Inr out \<Rightarrow> out))
        in ((fst res)\<lparr>is_loading := False\<rparr>, snd res, [req]))"

text \<open>The state as the class declares it.\<close>

definition initial_state :: state where
  "initial_state =
     \<lparr>username = [], is_loading = False, error_message = None, user_data = JObj [],
      stats_items = [], user_display_name = JStr [], posts_2024 = [], post_count = 0\<rparr>"

text \<open>
  The integer a post contributes to \<^verbatim>\<open>sum(post.get(key, 0) ...)\<close>: the field when it is
  an integer, 0 or 1 for a boolean, and 0 when the post has no such field.
\<close>

definition field_or_zero :: "string \<Rightarrow> json \<Rightarrow> int" where
  "field_or_zero key post =
     (case py_get post key (JInt 0) of
        Inr (JInt n) \<Rightarrow> n
      | Inr (JBool b) \<Rightarrow> (if b then 1 else 0)
      | _ \<Rightarrow> 0)"

text \<open>Example records: the scenario of two posts, one of 2023, and a record of three posts of 2024.\<close>

definition scenario_user :: json where
  "scenario_user =
     JObj [(''username'', JStr ''ada''),
           (''followersCount'', JInt 10),
           (''badges'', JList [JObj [(''name'', JStr ''a'')]]),
           (''posts'', JObj [(''nodes'', JList
              [JObj [(''publishedAt'', JStr ''2024-03-01T00:00:00Z''),
                     (''views'', JInt 100), (''reactionCount'', JInt 10)],
               JObj [(''publishedAt'', JStr ''2023-12-31T23:59:59Z''),
                     (''views'', JInt 50), (''reactionCount'', JInt 5)]])])]"


text \<open>
  A user record as a dictionary: the posts under \<^verbatim>\<open>posts.nodes\<close> and the other fields
  (\<^verbatim>\<open>username\<close>, \<^verbatim>\<open>followersCount\<close>, \<^verbatim>\<open>badges\<close>) as given.
\<close>

definition user_record :: "(string \<times> json) list \<Rightarrow> json list \<Rightarrow> json" where
  "user_record others nodes = JObj ((''posts'', JObj [(''nodes'', JList nodes)]) # others)"

text \<open>
  The calendar year of the instant of a timestamp in UTC, as the claims speak of it: the
  offset is subtracted from the time elapsed since the start of the written year, which
  moves the instant into the year before or the year after when the result is negative
  or not less than the length of that year. A timestamp without offset is read as UTC.
\<close>

definition days_before_month :: "int \<Rightarrow> int \<Rightarrow> int" where
  "days_before_month y m = sum_list (map (days_in_month y) [1..m - 1])"

definition utc_year :: "datetime \<Rightarrow> int" where
  "utc_year dt =
     (case utcoffset dt of
        None \<Rightarrow> year dt
      | Some ofs \<Rightarrow>
         let elapsed =
               ((((days_before_month (year dt) (month dt) + day dt - 1) * 24 + hour dt) * 60
                  + minute dt) * 60 + second dt) * 1000000 + microsecond dt - ofs;
             year_length = (if is_leap (year dt) then 366 else 365) * 86400 * 1000000
         in if elapsed < 0 then year dt - 1
            else if year_length \<le> elapsed then year dt + 1
            else year dt)"

text \<open>Two posts give the same answer to every \<^verbatim>\<open>post.get(key, 0)\<close>.\<close>

definition same_reads :: "json \<Rightarrow> json \<Rightarrow> bool" where
  "same_reads a b = (\<forall>k. py_get a k (JInt 0) = py_get b k (JInt 0))"

text \<open>A state in which a user name has been typed, and a response with a decoded body.\<close>

definition typed_state :: state where
  "typed_state = initial_state\<lparr>username := ''ada''\<rparr>"

definition reply_with :: "int \<Rightarrow> json \<Rightarrow> response" where
  "reply_with code body =
     \<lparr>status_code = code, json_result = Inr body, status_error_text = ''status '' @ str_int code\<rparr>"

text \<open>
  A network that answers every request with the same response, and the name of the class
  of an exception as one possible text for it.
\<close>

definition always_reply :: "response \<Rightarrow> request \<Rightarrow> net_reply" where
  "always_reply r req = Reply r"

fun exc_name :: "pyexc \<Rightarrow> string" where
  "exc_name AttributeError = ''AttributeError''"
| "exc_name TypeError = ''TypeError''"
| "exc_name ValueError = ''ValueError''"
| "exc_name KeyError = ''KeyError''"
| "exc_name IndexError = ''IndexError''"
| "exc_name OverflowError = ''OverflowError''"
| "exc_name ZeroDivisionError = ''ZeroDivisionError''"


section \<open>\<^verbatim>\<open>process_stats\<close> on a store of objects\<close>

text \<open>
  Whether a call changes the record it is given depends on the identity of objects, which
  the values above do not have. Here dictionaries and lists are objects of a store, and a
  value is a reference to one of them or an immutable value (\<^verbatim>\<open>None\<close>, a boolean, an
  integer, a string). The store is the list of the objects created so far: the address
  of an object is its position, and a new object goes to the end.
\<close>

type_synonym addr = nat

datatype pyval =
    VNone
  | VBool bool
  | VInt int
  | VStr string
  | VRef addr

datatype pyobj =
    ODict "(string \<times> pyval) list"
  | OList "pyval list"

type_synonym store = "pyobj list"

definition lookup :: "store \<Rightarrow> addr \<Rightarrow> pyobj option" where
  "lookup h a = (if a < length h then Some (h ! a) else None)"

definition alloc :: "pyobj \<Rightarrow> store \<Rightarrow> pyval \<times> store" where
  "alloc obj h = (VRef (length h), h @ [obj])"

text \<open>
  The content of a value, read from the store down to a given depth: what the decoder
  would have been given to build it.
\<close>

fun snapshot :: "nat \<Rightarrow> store \<Rightarrow> pyval \<Rightarrow> json" where
  "snapshot n h VNone = JNull"
| "snapshot n h (VBool b) = JBool b"
| "snapshot n h (VInt i) = JInt i"
| "snapshot n h (VStr s) = JStr s"
| "snapshot 0 h (VRef a) = JNull"
| "snapshot (Suc n) h (VRef a) =
     (case lookup h a of
        None \<Rightarrow> JNull
      | Some (OList xs) \<Rightarrow> JList (map (snapshot n h) xs)
      | Some (ODict kvs) \<Rightarrow> JObj (map (\<lambda>kv. (fst kv, snapshot n h (snd kv))) kvs))"

text \<open>The operations of the values, on references.\<close>

definition h_truthy :: "store \<Rightarrow> pyval \<Rightarrow> bool" where
  "h_truthy h v =
     (case v of
        VNone \<Rightarrow> False
      | VBool b \<Rightarrow> b
      | VInt n \<Rightarrow> n \<noteq> 0
      | VStr s \<Rightarrow> s \<noteq> []
      | VRef a \<Rightarrow>
         (case lookup h a of
            Some (ODict kvs) \<Rightarrow> kvs \<noteq> []
          | Some (OList xs) \<Rightarrow> xs \<noteq> []
          | None \<Rightarrow> True))"

definition h_get :: "store \<Rightarrow> pyval \<Rightarrow> string \<Rightarrow> pyval \<Rightarrow> pyexc + pyval" where
  "h_get h v k d =
     (case v of
        VRef a \<Rightarrow>
         (case lookup h a of
            Some (ODict kvs) \<Rightarrow> Inr (case map_of kvs k of None \<Rightarrow> d | Some x \<Rightarrow> x)
          | _ \<Rightarrow> Inl AttributeError)
      | _ \<Rightarrow> Inl AttributeError)"

definition h_getitem :: "store \<Rightarrow> pyval \<Rightarrow> string \<Rightarrow> pyexc + pyval" where
  "h_getitem h v k =
     (case v of
        VRef a \<Rightarrow>
         (case lookup h a of
            Some (ODict kvs) \<Rightarrow> (case map_of kvs k of None \<Rightarrow> Inl KeyError | Some x \<Rightarrow> Inr x)
          | _ \<Rightarrow> Inl TypeError)
      | _ \<Rightarrow> Inl TypeError)"

definition h_iter :: "store \<Rightarrow> pyval \<Rightarrow> pyexc + pyval list" where
  "h_iter h v =
     (case v of
        VStr s \<Rightarrow> Inr (map (\<lambda>c. VStr [c]) s)
      | VRef a \<Rightarrow>
         (case lookup h a of
            Some (OList xs) \<Rightarrow> Inr xs
          | Some (ODict kvs) \<Rightarrow> Inr (map (\<lambda>kv. VStr (fst kv)) (dict_items kvs))
          | None \<Rightarrow> Inl TypeError)
      | _ \<Rightarrow> Inl TypeError)"

definition h_len :: "store \<Rightarrow> pyval \<Rightarrow> pyexc + int" where
  "h_len h v =
     (case v of
        VStr s \<Rightarrow> Inr (int (length s))
      | VRef a \<Rightarrow>
         (case lookup h a of
            Some (OList xs) \<Rightarrow> Inr (int (length xs))
          | Some (ODict kvs) \<Rightarrow> Inr (int (length (dict_items kvs)))
          | None \<Rightarrow> Inl TypeError)
      | _ \<Rightarrow> Inl TypeError)"

fun h_sum_from :: "int \<Rightarrow> pyval list \<Rightarrow> pyexc + int" where
  "h_sum_from acc [] = Inr acc"
| "h_sum_from acc (VInt n # vs) = h_sum_from (acc + n) vs"
| "h_sum_from acc (VBool b # vs) = h_sum_from (acc + (if b then 1 else 0)) vs"
| "h_sum_from acc (_ # vs) = Inl TypeError"

fun h_replace_Z :: "pyval \<Rightarrow> pyexc + string" where
  "h_replace_Z (VStr s) = Inr (replace_Z s)"
| "h_replace_Z _ = Inl AttributeError"

text \<open>\<^verbatim>\<open>str(v)\<close>: the text of the content of the value.\<close>

definition h_str :: "store \<Rightarrow> pyval \<Rightarrow> string" where
  "h_str h v = py_str (snapshot (Suc (length h)) h v)"

text \<open>The state, its attributes holding values of the store.\<close>

record hstate =
  h_username :: string
  h_is_loading :: bool
  h_error_message :: "string option"
  h_user_data :: pyval
  h_stats_items :: pyval
  h_user_display_name :: pyval
  h_posts_2024 :: pyval
  h_post_count :: int

definition h_keep_post :: "store \<Rightarrow> pyval \<Rightarrow> pyexc + bool" where
  "h_keep_post h post =
     (case h_get h post ''publishedAt'' VNone of
        Inl e \<Rightarrow> Inl e
      | Inr v \<Rightarrow>
         if \<not> h_truthy h v then Inr False
         else
           (case h_getitem h post ''publishedAt'' of
              Inl e \<Rightarrow> Inl e
            | Inr w \<Rightarrow>
               (case h_replace_Z w of
                  Inl e \<Rightarrow> Inl e
                | Inr r \<Rightarrow>
                   (case fromisoformat r of
                      Inl e \<Rightarrow> Inl e
                    | Inr dt \<Rightarrow> Inr (year dt = 2024)))))"

text \<open>
  \<^verbatim>\<open>user_data.get("posts", {}).get("nodes", [])\<close>: the two default arguments are new
  objects, created before each call of \<^verbatim>\<open>get\<close>.
\<close>

definition h_all_posts :: "pyval \<Rightarrow> store \<Rightarrow> (pyexc + pyval) \<times> store" where
  "h_all_posts ud h =
     (let (d1, h1) = alloc (ODict []) h in
      case h_get h1 ud ''posts'' d1 of
        Inl e \<Rightarrow> (Inl e, h1)
      | Inr posts \<Rightarrow>
         let (d2, h2) = alloc (OList []) h1 in (h_get h2 posts ''nodes'' d2, h2))"

text \<open>The comprehension: its result is a new list, of the posts kept (not of copies).\<close>

definition h_select_posts_2024 :: "pyval \<Rightarrow> store \<Rightarrow> (pyexc + pyval) \<times> store" where
  "h_select_posts_2024 ud h =
     (case h_all_posts ud h of
        (Inl e, h2) \<Rightarrow> (Inl e, h2)
      | (Inr ap, h2) \<Rightarrow>
         (case h_iter h2 ap of
            Inl e \<Rightarrow> (Inl e, h2)
          | Inr nodes \<Rightarrow>
             (case filter_exc (h_keep_post h2) nodes of
                Inl e \<Rightarrow> (Inl e, h2)
              | Inr kept \<Rightarrow> (let (l, h3) = alloc (OList kept) h2 in (Inr l, h3)))))"

definition h_sum_field :: "store \<Rightarrow> string \<Rightarrow> pyval \<Rightarrow> pyexc + int" where
  "h_sum_field h key posts =
     (case h_iter h posts of
        Inl e \<Rightarrow> Inl e
      | Inr ps \<Rightarrow>
         (case map_exc (\<lambda>post. h_get h post key (VInt 0)) ps of
            Inl e \<Rightarrow> Inl e
          | Inr vs \<Rightarrow> h_sum_from 0 vs))"

definition h_count_badges :: "pyval \<Rightarrow> store \<Rightarrow> (pyexc + int) \<times> store" where
  "h_count_badges ud h =
     (case h_get h ud ''badges'' VNone of
        Inl e \<Rightarrow> (Inl e, h)
      | Inr c \<Rightarrow>
         if h_truthy h c then
           (let (d, h1) = alloc (OList []) h in
            case h_get h1 ud ''badges'' d of
              Inl e \<Rightarrow> (Inl e, h1)
            | Inr bs \<Rightarrow> (h_len h1 bs, h1))
         else (Inr 0, h))"

definition h_metric :: "string \<Rightarrow> string \<Rightarrow> string \<Rightarrow> pyobj" where
  "h_metric t v d = ODict [(''title'', VStr t), (''value'', VStr v), (''description'', VStr d)]"

text \<open>The list display of the six metrics: six new dictionaries and a new list of them.\<close>

definition h_build_stats_items ::
  "int \<Rightarrow> int \<Rightarrow> int \<Rightarrow> pyval \<Rightarrow> int \<Rightarrow> store \<Rightarrow> (pyexc + pyval) \<times> store" where
  "h_build_stats_items count total_views total_reactions total_followers total_badges h =
     (let (m1, h1) = alloc (h_metric ''Total Articles'' (str_int count)
                              ''Articles published in 2024'') h;
          (m2, h2) = alloc (h_metric ''Total Views'' (format_commas total_views)
                              ''Content views in 2024'') h1;
          (m3, h3) = alloc (h_metric ''Total Reactions'' (str_int total_reactions)
                              ''Reactions in 2024'') h2;
          (m4, h4) = alloc (h_metric ''Followers'' (h_str h3 total_followers)
                              ''Total followers'') h3;
          (m5, h5) = alloc (h_metric ''Badges Earned'' (str_int total_badges)
                              ''Total badges collected'') h4
      in case avg_reactions total_reactions count of
           Inl e \<Rightarrow> (Inl e, h5)
         | Inr avg \<Rightarrow>
            let (m6, h6) = alloc (h_metric ''Avg. Reactions'' avg
                                    ''Average reactions per post'') h5;
                (l, h7) = alloc (OList [m1, m2, m3, m4, m5, m6]) h6
            in (Inr l, h7))"

text \<open>
  The body of the \<^verbatim>\<open>try\<close> block: an exception leaves it with the state and the store as
  they are by then.
\<close>

definition process_stats_h_try ::
  "hstate \<Rightarrow> pyval \<Rightarrow> store \<Rightarrow> (pyexc \<times> hstate \<times> store) + (hstate \<times> store)" where
  "process_stats_h_try st0 ud h0 =
     (let st1 = st0\<lparr>h_user_data := ud\<rparr> in
      case h_select_posts_2024 ud h0 of
        (Inl e, h1) \<Rightarrow> Inl (e, st1, h1)
      | (Inr kept, h1) \<Rightarrow>
     (let st2 = st1\<lparr>h_posts_2024 := kept\<rparr> in
      case h_len h1 (h_posts_2024 st2) of
        Inl e \<Rightarrow> Inl (e, st2, h1)
      | Inr n \<Rightarrow>
     (let st3 = st2\<lparr>h_post_count := n\<rparr> in
      case h_sum_field h1 ''views'' (h_posts_2024 st3) of
        Inl e \<Rightarrow> Inl (e, st3, h1)
      | Inr total_views \<Rightarrow>
     (case h_sum_field h1 ''reactionCount'' (h_posts_2024 st3) of
        Inl e \<Rightarrow> Inl (e, st3, h1)
      | Inr total_reactions \<Rightarrow>
     (case h_get h1 ud ''followersCount'' (VInt 0) of
        Inl e \<Rightarrow> Inl (e, st3, h1)
      | Inr total_followers \<Rightarrow>
     (case h_count_badges ud h1 of
        (Inl e, h2) \<Rightarrow> Inl (e, st3, h2)
      | (Inr total_badges, h2) \<Rightarrow>
     (case h_get h2 ud ''username'' (VStr []) of
        Inl e \<Rightarrow> Inl (e, st3, h2)
      | Inr name \<Rightarrow>
     (let st4 = st3\<lparr>h_user_display_name := name\<rparr> in
      case h_build_stats_items (h_post_count st4) total_views total_reactions
             total_followers total_badges h2 of
        (Inl e, h3) \<Rightarrow> Inl (e, st4, h3)
      | (Inr items, h3) \<Rightarrow> Inr (st4\<lparr>h_stats_items := items\<rparr>, h3)))))))))"

text \<open>
  \<^verbatim>\<open>process_stats\<close>: the \<^verbatim>\<open>except\<close> clause assigns a new empty list and 0.
\<close>

definition process_stats_h :: "hstate \<Rightarrow> pyval \<Rightarrow> store \<Rightarrow> hstate \<times> store" where
  "process_stats_h st ud h =
     (case process_stats_h_try st ud h of
        Inr out \<Rightarrow> out
      | Inl (e, st', h') \<Rightarrow>
         (let (l, h'') = alloc (OList []) h'
          in (st'\<lparr>h_stats_items := l, h_post_count := 0\<rparr>, h'')))"

text \<open>
  A store is closed when every reference in it is to one of its objects; a value is of a
  store when it is no reference or a reference to one of its objects.
\<close>

definition val_in :: "store \<Rightarrow> pyval \<Rightarrow> bool" where
  "val_in h v = (case v of VRef a \<Rightarrow> a < length h | _ \<Rightarrow> True)"

definition obj_vals :: "pyobj \<Rightarrow> pyval list" where
  "obj_vals obj = (case obj of ODict kvs \<Rightarrow> map snd kvs | OList xs \<Rightarrow> xs)"

definition closed_store :: "store \<Rightarrow> bool" where
  "closed_store h = (\<forall>obj \<in> set h. \<forall>v \<in> set (obj_vals obj). val_in h v)"

text \<open>The scenario of two posts as objects: the posts, their list, the badge, the record.\<close>

definition scenario_store :: store where
  "scenario_store =
     [ODict [(''publishedAt'', VStr ''2024-03-01T00:00:00Z''),
             (''views'', VInt 100), (''reactionCount'', VInt 10)],
      ODict [(''publishedAt'', VStr ''2023-12-31T23:59:59Z''),
             (''views'', VInt 50), (''reactionCount'', VInt 5)],
      OList [VRef 0, VRef 1],
      ODict [(''nodes'', VRef 2)],
      ODict [(''name'', VStr ''a'')],
      OList [VRef 4],
      ODict [(''username'', VStr ''ada''), (''followersCount'', VInt 10),
             (''badges'', VRef 5), (''posts'', VRef 3)]]"

definition initial_hstate :: hstate where
  "initial_hstate =
     \<lparr>h_username = [], h_is_loading = False, h_error_message = None, h_user_data = VNone,
      h_stats_items = VNone, h_user_display_name = VStr [], h_posts_2024 = VNone,
      h_post_count = 0\<rparr>"

section \<open>Helper lemmas\<close>

lemmas eval_defs = process_stats_try_def select_posts_2024_def all_posts_def keep_post_def
  sum_field_def py_sum_def count_badges_def build_stats_items_def avg_reactions_def metric_def
  fromisoformat_def parse_isoformat_date_def parse_isoformat_time_def parse_hh_mm_ss_ff_def
  parse_digits_def digit_val_def is_sign_def replace_Z_def days_in_month_def is_leap_def
  py_truediv_def floor_log2_quot_def bit_length.simps round_half_even_def format_1f_def
  str_int_def str_nat.simps digit_char_def format_commas_def group3.simps Let_def
  initial_state_def process_stats_def

lemma process_stats_try_success:
  assumes "process_stats_try st ud = Inr st'"
  shows "\<exists>posts tv tr tf tb name items.
           select_posts_2024 ud = Inr posts
         \<and> sum_field ''views'' posts = Inr tv
         \<and> sum_field ''reactionCount'' posts = Inr tr
         \<and> py_get ud ''followersCount'' (JInt 0) = Inr tf
         \<and> count_badges ud = Inr tb
         \<and> py_get ud ''username'' (JStr []) = Inr name
         \<and> build_stats_items (int (length posts)) tv tr tf tb = Inr items
         \<and> st' = st\<lparr>user_data := ud, posts_2024 := posts, post_count := int (length posts),
                     user_display_name := name, stats_items := items\<rparr>"
  using assms by (auto simp: process_stats_try_def Let_def split: sum.splits)

lemma filter_exc_Inr:
  "filter_exc f xs = Inr ys \<Longrightarrow> ys = filter (\<lambda>x. f x = Inr True) xs \<and> (\<forall>x\<in>set xs. \<exists>b. f x = Inr b)"
  by (induction xs arbitrary: ys) (auto split: sum.splits if_splits)

lemma filter_exc_Inl:
  "x \<in> set xs \<Longrightarrow> f x = Inl e \<Longrightarrow> \<exists>e'. filter_exc f xs = Inl e'"
  by (induction xs) (auto split: sum.splits)

lemma filter_exc_total:
  "\<forall>x\<in>set xs. \<exists>b. f x = Inr b \<Longrightarrow> filter_exc f xs = Inr (filter (\<lambda>x. f x = Inr True) xs)"
  by (induction xs) (auto split: sum.splits)

lemma py_sum_from_Inr:
  "py_sum_from acc vs = Inr t \<Longrightarrow> t = acc + sum_list (map (\<lambda>v. case v of JInt n \<Rightarrow> n | JBool b \<Rightarrow> (if b then 1 else 0) | _ \<Rightarrow> 0) vs)"
  by (induction acc vs arbitrary: t rule: py_sum_from.induct) auto

lemma map_exc_Inr:
  "map_exc f xs = Inr ys \<Longrightarrow> length ys = length xs \<and> (\<forall>i<length xs. f (xs ! i) = Inr (ys ! i))"
  by (induction xs arbitrary: ys) (auto split: sum.splits simp: nth_Cons')

lemma map_exc_Inr_map:
  "map_exc f xs = Inr ys \<Longrightarrow> map f xs = map Inr ys"
  by (induction xs arbitrary: ys) (auto split: sum.splits)

lemma sum_field_Inr:
  assumes "sum_field key posts = Inr t"
  shows "t = sum_list (map (field_or_zero key) posts)"
proof -
  from assms obtain vs where vs: "map_exc (\<lambda>post. py_get post key (JInt 0)) posts = Inr vs"
    and s: "py_sum vs = Inr t"
    by (auto simp: sum_field_def split: sum.splits)
  have "map (\<lambda>v. case v of JInt n \<Rightarrow> n | JBool b \<Rightarrow> (if b then 1 else 0) | _ \<Rightarrow> 0) vs
        = map (field_or_zero key) posts"
    using vs
  proof (induction posts arbitrary: vs)
    case Nil then show ?case by simp
  next
    case (Cons p ps)
    then show ?case by (auto split: sum.splits simp: field_or_zero_def)
  qed
  with py_sum_from_Inr [of 0 vs t] s show ?thesis by (simp add: py_sum_def)
qed









lemma build_stats_items_Inr:
  assumes "build_stats_items c tv tr tf tb = Inr items"
  shows "\<exists>avg. avg_reactions tr c = Inr avg \<and> items =
        [metric ''Total Articles'' (str_int c) ''Articles published in 2024'',
         metric ''Total Views'' (format_commas tv) ''Content views in 2024'',
         metric ''Total Reactions'' (str_int tr) ''Reactions in 2024'',
         metric ''Followers'' (py_str tf) ''Total followers'',
         metric ''Badges Earned'' (str_int tb) ''Total badges collected'',
         metric ''Avg. Reactions'' avg ''Average reactions per post'']"
  using assms by (auto simp: build_stats_items_def split: sum.splits)

lemma process_stats_success:
  "process_stats_try st ud = Inr st' \<Longrightarrow> process_stats st ud = st'"
  by (simp add: process_stats_def)


lemma scenario_try:
  "process_stats_try initial_state scenario_user =
     Inr (initial_state\<lparr>user_data := scenario_user,
        posts_2024 :=
          [JObj [(''publishedAt'', JStr ''2024-03-01T00:00:00Z''),
                     (''views'', JInt 100), (''reactionCount'', JInt 10)]],
        post_count := 1,
        user_display_name := JStr ''ada'',
        stats_items :=
          [metric ''Total Articles'' ''1'' ''Articles published in 2024'',
           metric ''Total Views'' ''100'' ''Content views in 2024'',
           metric ''Total Reactions'' ''10'' ''Reactions in 2024'',
           metric ''Followers'' ''10'' ''Total followers'',
           metric ''Badges Earned'' ''1'' ''Total badges collected'',
           metric ''Avg. Reactions'' ''10.0'' ''Average reactions per post'']\<rparr>)"
  by (simp add: scenario_user_def eval_defs)


lemma fromisoformat_short: "length s < 10 \<Longrightarrow> fromisoformat s = Inl ValueError"
  by (simp add: fromisoformat_def)

lemma keep_post_parsed:
  assumes "map_of kvs ''publishedAt'' = Some (JStr s)" "fromisoformat (replace_Z s) = Inr dt"
  shows "keep_post (JObj kvs) = Inr (year dt = 2024)"
proof -
  have "s \<noteq> []" using assms(2) by (auto simp: replace_Z_def fromisoformat_def)
  then show ?thesis using assms by (simp add: keep_post_def)
qed

lemma keep_post_unparsable:
  assumes "map_of kvs ''publishedAt'' = Some (JStr s)" "s \<noteq> []" "fromisoformat (replace_Z s) = Inl e"
  shows "keep_post (JObj kvs) = Inl e"
  using assms by (simp add: keep_post_def)

lemma keep_post_missing:
  assumes "case map_of kvs ''publishedAt'' of None \<Rightarrow> True | Some v \<Rightarrow> \<not> truthy v"
  shows "keep_post (JObj kvs) = Inr False"
  using assms by (auto simp: keep_post_def split: option.splits)

lemma filter_exc_append:
  "filter_exc f (xs @ ys) =
     (case filter_exc f xs of
        Inl e \<Rightarrow> Inl e
      | Inr a \<Rightarrow> (case filter_exc f ys of Inl e \<Rightarrow> Inl e | Inr b \<Rightarrow> Inr (a @ b)))"
  by (induction xs) (auto split: sum.splits)

lemma filter_exc_drop:
  "f p = Inr False \<Longrightarrow> filter_exc f (xs @ p # ys) = filter_exc f (xs @ ys)"
  by (simp add: filter_exc_append split: sum.splits)

lemma select_user_record: "select_posts_2024 (user_record others nodes) = filter_exc keep_post nodes"
  by (simp add: select_posts_2024_def all_posts_def user_record_def)

lemma process_stats_user_record_cong:
  assumes "filter_exc keep_post n1 = filter_exc keep_post n2"
  shows "stats_items (process_stats st (user_record f n1)) = stats_items (process_stats st (user_record f n2))
       \<and> post_count (process_stats st (user_record f n1)) = post_count (process_stats st (user_record f n2))
       \<and> posts_2024 (process_stats st (user_record f n1)) = posts_2024 (process_stats st (user_record f n2))"
proof -
  have s: "select_posts_2024 (user_record f n1) = select_posts_2024 (user_record f n2)"
    using assms by (simp add: select_user_record)
  have g: "\<And>k d. k \<noteq> ''posts'' \<Longrightarrow> py_get (user_record f n1) k d = py_get (user_record f n2) k d"
    by (simp add: user_record_def)
  have b: "count_badges (user_record f n1) = count_badges (user_record f n2)"
    by (simp add: count_badges_def user_record_def)
  show ?thesis
    unfolding process_stats_def process_stats_try_def s b
      g [of "''followersCount''", simplified] g [of "''username''", simplified]
    by (simp add: Let_def split: sum.splits)
qed

lemma select_fails_degrades:
  assumes "select_posts_2024 ud = Inl e"
  shows "stats_items (process_stats st ud) = [] \<and> post_count (process_stats st ud) = 0"
  using assms by (simp add: process_stats_def process_stats_try_def)

lemma digits_from_bound:
  "digits_from acc s = Some v \<Longrightarrow> v < (acc + 1) * 10 ^ length s"
proof (induction s arbitrary: acc)
  case Nil
  then show ?case by simp
next
  case (Cons c cs)
  from Cons.prems obtain d where d: "digit_val c = Some d" and r: "digits_from (10 * acc + d) cs = Some v"
    by (auto split: option.splits)
  have "d < 10" using d by (auto simp: digit_val_def split: if_splits)
  from Cons.IH [OF r] have "v < (10 * acc + d + 1) * 10 ^ length cs" .
  also have "\<dots> \<le> (10 * acc + 10) * 10 ^ length cs"
    using \<open>d < 10\<close> by (intro mult_right_mono) auto
  finally show ?case by (simp add: algebra_simps)
qed

lemma parse_digits_range:
  assumes "parse_digits s = Some v"
  shows "0 \<le> v \<and> v < 10 ^ length s"
proof -
  from assms obtain n where n: "digits_from 0 s = Some n" and v: "v = int n"
    by (auto simp: parse_digits_def)
  from digits_from_bound [OF n] have "n < 10 ^ length s" by simp
  then have "int n < 10 ^ length s"
    by (metis of_nat_less_iff of_nat_numeral of_nat_power)
  then show ?thesis using v by simp
qed

lemma parse_hh_mm_ss_ff_range:
  assumes "parse_hh_mm_ss_ff t = Some (h, m, s, f)"
  shows "0 \<le> h \<and> 0 \<le> m \<and> 0 \<le> s \<and> 0 \<le> f \<and> f < 1000000"
proof -
  from assms have
    hh: "parse_digits (take 2 t) = Some h" and
    mm: "(if 5 \<le> length t then parse_digits (take 2 (drop 3 t)) else Some 0) = Some m" and
    ss: "(if 8 \<le> length t then parse_digits (take 2 (drop 6 t)) else Some 0) = Some s" and
    ff: "(if length t = 12 then map_option (\<lambda>f. f * 1000) (parse_digits (drop 9 t))
          else if length t = 15 then parse_digits (drop 9 t) else Some 0) = Some f"
    by (auto simp: parse_hh_mm_ss_ff_def Let_def split: if_splits option.splits)
  have "0 \<le> h" using parse_digits_range [OF hh] by simp
  moreover have "0 \<le> m" using mm parse_digits_range [of "take 2 (drop 3 t)" m]
    by (auto split: if_splits)
  moreover have "0 \<le> s" using ss parse_digits_range [of "take 2 (drop 6 t)" s]
    by (auto split: if_splits)
  moreover have "0 \<le> f \<and> f < 1000000"
  proof (cases "length t = 12")
    case True
    with ff obtain g where g: "parse_digits (drop 9 t) = Some g" "f = g * 1000" by auto
    from parse_digits_range [OF g(1)] True have "0 \<le> g \<and> g < 1000" by simp
    with g(2) show ?thesis by simp
  next
    case False
    show ?thesis
    proof (cases "length t = 15")
      case True
      with ff False have g: "parse_digits (drop 9 t) = Some f" by simp
      from parse_digits_range [OF g] True show ?thesis by simp
    next
      case False
      with ff \<open>length t \<noteq> 12\<close> show ?thesis by simp
    qed
  qed
  ultimately show ?thesis by blast
qed

lemma parse_isoformat_time_range:
  assumes "parse_isoformat_time t = Some ((h, m, s, f), off)"
  shows "0 \<le> h \<and> 0 \<le> m \<and> 0 \<le> s \<and> 0 \<le> f \<and> f < 1000000"
  using assms parse_hh_mm_ss_ff_range [of "takeWhile (\<lambda>c. \<not> is_sign c) t" h m s f]
  by (auto simp: parse_isoformat_time_def Let_def split: option.splits list.splits if_splits)

lemma fromisoformat_fields:
  assumes "fromisoformat s = Inr dt"
  shows "1 \<le> year dt \<and> year dt \<le> 9999 \<and> 1 \<le> month dt \<and> month dt \<le> 12
       \<and> 1 \<le> day dt \<and> day dt \<le> days_in_month (year dt) (month dt)
       \<and> 0 \<le> hour dt \<and> hour dt \<le> 23 \<and> 0 \<le> minute dt \<and> minute dt \<le> 59
       \<and> 0 \<le> second dt \<and> second dt \<le> 59
       \<and> 0 \<le> microsecond dt \<and> microsecond dt < 1000000"
proof -
  from assms obtain y mo d h mi sec us off where
    t: "(if length s = 10 then Some ((0, 0, 0, 0), None) else parse_isoformat_time (drop 11 s))
          = Some ((h, mi, sec, us), off)" and
    v: "1 \<le> y \<and> y \<le> 9999 \<and> 1 \<le> mo \<and> mo \<le> 12 \<and> 1 \<le> d \<and> d \<le> days_in_month y mo
        \<and> h \<le> 23 \<and> mi \<le> 59 \<and> sec \<le> 59" and
    dt: "dt = \<lparr>year = y, month = mo, day = d, hour = h, minute = mi,
               second = sec, microsecond = us, utcoffset = off\<rparr>"
    by (auto simp: fromisoformat_def split: if_splits option.splits prod.splits)
  have "0 \<le> h \<and> 0 \<le> mi \<and> 0 \<le> sec \<and> 0 \<le> us \<and> us < 1000000"
  proof (cases "length s = 10")
    case True
    with t show ?thesis by simp
  next
    case False
    with t have "parse_isoformat_time (drop 11 s) = Some ((h, mi, sec, us), off)" by simp
    then show ?thesis by (rule parse_isoformat_time_range)
  qed
  with v show ?thesis by (simp add: dt)
qed

lemma days_before_month_bound:
  assumes "1 \<le> m" "m \<le> 12" "1 \<le> d" "d \<le> days_in_month y m"
  shows "0 \<le> days_before_month y m + d - 1
       \<and> days_before_month y m + d - 1 < (if is_leap y then 366 else 365)"
proof -
  from assms(1,2) have "m = 1 \<or> m = 2 \<or> m = 3 \<or> m = 4 \<or> m = 5 \<or> m = 6 \<or> m = 7 \<or> m = 8
      \<or> m = 9 \<or> m = 10 \<or> m = 11 \<or> m = 12" by arith
  then show ?thesis
    using assms(3,4)
    by (elim disjE) (auto simp add: days_before_month_def days_in_month_def upto.simps split: if_splits)
qed

lemma utc_year_zero_offset:
  assumes "fromisoformat s = Inr dt" "utcoffset dt = None \<or> utcoffset dt = Some 0"
  shows "utc_year dt = year dt"
proof (cases "utcoffset dt")
  case None
  then show ?thesis by (simp add: utc_year_def)
next
  case (Some ofs)
  with assms(2) have z: "utcoffset dt = Some 0" by simp
  note f = fromisoformat_fields [OF assms(1)]
  from f have b: "0 \<le> days_before_month (year dt) (month dt) + day dt - 1"
    "days_before_month (year dt) (month dt) + day dt - 1 < (if is_leap (year dt) then 366 else 365)"
    using days_before_month_bound [of "month dt" "day dt" "year dt"] by simp_all
  define D where "D = days_before_month (year dt) (month dt) + day dt - 1"
  define L :: int where "L = (if is_leap (year dt) then 366 else 365)"
  have D: "0 \<le> D" "D + 1 \<le> L" using b by (simp_all add: D_def L_def)
  define E where "E = (((D * 24 + hour dt) * 60 + minute dt) * 60 + second dt) * 1000000 + microsecond dt"
  have lo: "0 \<le> E" using D f by (simp add: E_def)
  have "E < (((D * 24 + 24) * 60) * 60) * 1000000"
    using f by (simp add: E_def)
  also have "\<dots> = (D + 1) * 86400 * 1000000" by simp
  also have "\<dots> \<le> L * 86400 * 1000000" using D(2) by simp
  finally have hi: "E < L * 86400 * 1000000" .
  show ?thesis
    using lo hi z unfolding E_def D_def L_def by (simp add: utc_year_def Let_def)
qed

lemma same_reads_refl: "same_reads a a"
  by (simp add: same_reads_def)

lemma filter_exc_related:
  assumes "list_all2 (\<lambda>a b. keep_post a = keep_post b \<and> same_reads a b) as bs"
  shows "rel_sum (=) (list_all2 same_reads) (filter_exc keep_post as) (filter_exc keep_post bs)"
  using assms
proof (induction rule: list_all2_induct)
  case Nil
  then show ?case by simp
next
  case (Cons a as b bs)
  then show ?case
    by (cases "keep_post b"; cases "filter_exc keep_post as"; cases "filter_exc keep_post bs") auto
qed

lemma sum_field_related:
  assumes "list_all2 same_reads ps qs"
  shows "sum_field k ps = sum_field k qs"
proof -
  have "map_exc (\<lambda>post. py_get post k (JInt 0)) ps = map_exc (\<lambda>post. py_get post k (JInt 0)) qs"
    using assms by (induction rule: list_all2_induct) (auto simp: same_reads_def split: sum.splits)
  then show ?thesis by (simp add: sum_field_def)
qed

lemma process_stats_user_record_related:
  assumes "rel_sum (=) (list_all2 same_reads) (filter_exc keep_post n1) (filter_exc keep_post n2)"
  shows "stats_items (process_stats st (user_record f n1)) = stats_items (process_stats st (user_record f n2))
       \<and> post_count (process_stats st (user_record f n1)) = post_count (process_stats st (user_record f n2))"
proof (cases "filter_exc keep_post n1")
  case (Inl e)
  with assms have "filter_exc keep_post n2 = Inl e" by (cases "filter_exc keep_post n2") auto
  with Inl show ?thesis
    using select_fails_degrades [of "user_record f n1" e st] select_fails_degrades [of "user_record f n2" e st]
    by (simp add: select_user_record)
next
  case (Inr ps)
  with assms obtain qs where q: "filter_exc keep_post n2 = Inr qs" "list_all2 same_reads ps qs"
    by (cases "filter_exc keep_post n2") auto
  have l: "length ps = length qs" using q(2) by (rule list_all2_lengthD)
  have s: "\<And>k. sum_field k ps = sum_field k qs" using q(2) by (rule sum_field_related)
  have b: "count_badges (user_record f n1) = count_badges (user_record f n2)"
    by (simp add: count_badges_def user_record_def)
  have g: "\<And>k d. k \<noteq> ''posts'' \<Longrightarrow> py_get (user_record f n1) k d = py_get (user_record f n2) k d"
    by (simp add: user_record_def)
  show ?thesis
    unfolding process_stats_def process_stats_try_def select_user_record Inr q(1) b
      g [of "''followersCount''", simplified] g [of "''username''", simplified]
    by (simp add: Let_def l s split: sum.splits)
qed

lemma list_all2_replace:
  assumes "P a b" "\<And>x. P x x"
  shows "list_all2 P (xs @ a # ys) (xs @ b # ys)"
  using assms by (simp add: list_all2_appendI list_all2_refl)

lemma add_default_same:
  assumes "map_of kvs k = None" "k \<noteq> ''publishedAt''"
  shows "keep_post (JObj kvs) = keep_post (JObj (kvs @ [(k, JInt 0)]))
       \<and> same_reads (JObj kvs) (JObj (kvs @ [(k, JInt 0)]))"
  using assms by (auto simp: keep_post_def same_reads_def map_add_def split: option.splits)

lemma absent_post_field:
  assumes "map_of kvs k = None" "k \<noteq> ''publishedAt''"
  shows "stats_items (process_stats st (user_record f (xs @ JObj kvs # ys)))
         = stats_items (process_stats st (user_record f (xs @ JObj (kvs @ [(k, JInt 0)]) # ys)))
       \<and> post_count (process_stats st (user_record f (xs @ JObj kvs # ys)))
         = post_count (process_stats st (user_record f (xs @ JObj (kvs @ [(k, JInt 0)]) # ys)))"
proof -
  have "list_all2 (\<lambda>a b. keep_post a = keep_post b \<and> same_reads a b)
          (xs @ JObj kvs # ys) (xs @ JObj (kvs @ [(k, JInt 0)]) # ys)"
    using add_default_same [OF assms] by (intro list_all2_replace) (simp_all add: same_reads_refl)
  from process_stats_user_record_related [OF filter_exc_related [OF this]]
  show ?thesis .
qed

lemma process_stats_cong:
  assumes "select_posts_2024 u1 = select_posts_2024 u2"
    "py_get u1 ''followersCount'' (JInt 0) = py_get u2 ''followersCount'' (JInt 0)"
    "count_badges u1 = count_badges u2"
    "isl (py_get u1 ''username'' (JStr [])) = isl (py_get u2 ''username'' (JStr []))"
  shows "stats_items (process_stats st u1) = stats_items (process_stats st u2)
       \<and> post_count (process_stats st u1) = post_count (process_stats st u2)"
proof -
  show ?thesis
    using assms(4)
    unfolding process_stats_def process_stats_try_def assms(1-3)
    by (cases "py_get u1 ''username'' (JStr [])"; cases "py_get u2 ''username'' (JStr [])")
       (simp_all add: Let_def split: sum.splits)
qed

lemma absent_followers:
  assumes "map_of f ''followersCount'' = None"
  shows "stats_items (process_stats st (user_record f n))
         = stats_items (process_stats st (user_record (f @ [(''followersCount'', JInt 0)]) n))
       \<and> post_count (process_stats st (user_record f n))
         = post_count (process_stats st (user_record (f @ [(''followersCount'', JInt 0)]) n))"
proof (rule process_stats_cong)
  show "select_posts_2024 (user_record f n)
      = select_posts_2024 (user_record (f @ [(''followersCount'', JInt 0)]) n)"
    by (simp add: select_user_record)
  show "py_get (user_record f n) ''followersCount'' (JInt 0)
      = py_get (user_record (f @ [(''followersCount'', JInt 0)]) n) ''followersCount'' (JInt 0)"
    using assms by (simp add: user_record_def map_add_def)
  show "count_badges (user_record f n)
      = count_badges (user_record (f @ [(''followersCount'', JInt 0)]) n)"
    by (simp add: count_badges_def user_record_def map_add_def split: option.splits)
  show "isl (py_get (user_record f n) ''username'' (JStr []))
      = isl (py_get (user_record (f @ [(''followersCount'', JInt 0)]) n) ''username'' (JStr []))"
    by (simp add: user_record_def)
qed

lemma absent_badges:
  assumes "map_of f ''badges'' = None"
  shows "stats_items (process_stats st (user_record f n))
         = stats_items (process_stats st (user_record (f @ [(''badges'', JList [])]) n))
       \<and> post_count (process_stats st (user_record f n))
         = post_count (process_stats st (user_record (f @ [(''badges'', JList [])]) n))"
proof (rule process_stats_cong)
  show "select_posts_2024 (user_record f n)
      = select_posts_2024 (user_record (f @ [(''badges'', JList [])]) n)"
    by (simp add: select_user_record)
  show "py_get (user_record f n) ''followersCount'' (JInt 0)
      = py_get (user_record (f @ [(''badges'', JList [])]) n) ''followersCount'' (JInt 0)"
    by (simp add: user_record_def map_add_def split: option.splits)
  show "count_badges (user_record f n)
      = count_badges (user_record (f @ [(''badges'', JList [])]) n)"
    using assms by (simp add: count_badges_def user_record_def map_add_def)
  show "isl (py_get (user_record f n) ''username'' (JStr []))
      = isl (py_get (user_record (f @ [(''badges'', JList [])]) n) ''username'' (JStr []))"
    by (simp add: user_record_def)
qed

lemma sum_field_absent:
  assumes "\<forall>p\<in>set ps. \<exists>kvs. p = JObj kvs \<and> map_of kvs k = None"
  shows "sum_field k ps = Inr 0"
proof -
  have "map_exc (\<lambda>post. py_get post k (JInt 0)) ps = Inr (map (\<lambda>_. JInt 0) ps)"
    using assms by (induction ps) auto
  moreover have "py_sum_from 0 (map (\<lambda>_. JInt 0) ps) = Inr 0"
    by (induction ps) auto
  ultimately show ?thesis by (simp add: sum_field_def py_sum_def)
qed

lemma avg_reactions_zero:
  "avg_reactions 0 n = Inr (if 0 < n then ''0.0'' else ''0'')"
  by (simp add: avg_reactions_def py_truediv_def format_1f_def str_nat.simps digit_char_def)

lemma all_absent_success:
  assumes "\<forall>p\<in>set nodes. \<exists>kvs b. p = JObj kvs \<and> map_of kvs ''views'' = None
              \<and> map_of kvs ''reactionCount'' = None \<and> keep_post p = Inr b"
    and "map_of others ''followersCount'' = None"
    and "map_of others ''badges'' = None \<or> map_of others ''badges'' = Some (JList [])"
  shows "stats_items (process_stats st (user_record others nodes)) =
          [metric ''Total Articles''
             (str_int (int (length (filter (\<lambda>p. keep_post p = Inr True) nodes))))
             ''Articles published in 2024'',
           metric ''Total Views'' ''0'' ''Content views in 2024'',
           metric ''Total Reactions'' ''0'' ''Reactions in 2024'',
           metric ''Followers'' ''0'' ''Total followers'',
           metric ''Badges Earned'' ''0'' ''Total badges collected'',
           metric ''Avg. Reactions''
             (if filter (\<lambda>p. keep_post p = Inr True) nodes = [] then ''0'' else ''0.0'')
             ''Average reactions per post'']"
proof -
  define ps where "ps = filter (\<lambda>p. keep_post p = Inr True) nodes"
  have s: "select_posts_2024 (user_record others nodes) = Inr ps"
    using assms(1) unfolding ps_def select_user_record by (intro filter_exc_total) blast
  have v: "sum_field ''views'' ps = Inr 0"
    using assms(1) by (intro sum_field_absent) (auto simp: ps_def)
  have r: "sum_field ''reactionCount'' ps = Inr 0"
    using assms(1) by (intro sum_field_absent) (auto simp: ps_def)
  have f: "py_get (user_record others nodes) ''followersCount'' (JInt 0) = Inr (JInt 0)"
    using assms(2) by (simp add: user_record_def)
  have b: "count_badges (user_record others nodes) = Inr 0"
    using assms(3) by (auto simp: count_badges_def user_record_def)
  have u: "\<exists>name. py_get (user_record others nodes) ''username'' (JStr []) = Inr name"
    by (simp add: user_record_def)
  have z: "str_int 0 = ''0''" "format_commas 0 = ''0''"
    by (simp_all add: str_int_def format_commas_def group3.simps str_nat.simps digit_char_def)
  show ?thesis
    using u unfolding ps_def [symmetric]
    by (auto simp: process_stats_def process_stats_try_def s v r f b Let_def
          build_stats_items_def avg_reactions_zero z)
qed

lemma starts_with_iff: "starts_with s sub \<longleftrightarrow> (\<exists>q. s = sub @ q)"
  by (induction s sub rule: starts_with.induct) auto

lemma contains_iff: "contains s sub \<longleftrightarrow> (\<exists>p q. s = p @ sub @ q)"
proof (induction s)
  case Nil
  then show ?case by simp
next
  case (Cons c cs)
  have "(\<exists>p q. c # cs = p @ sub @ q) \<longleftrightarrow> (\<exists>q. c # cs = sub @ q) \<or> (\<exists>p q. cs = p @ sub @ q)"
  proof
    assume "\<exists>p q. c # cs = p @ sub @ q"
    then obtain p q where e: "c # cs = p @ sub @ q" by blast
    show "(\<exists>q. c # cs = sub @ q) \<or> (\<exists>p q. cs = p @ sub @ q)"
    proof (cases p)
      case Nil
      with e show ?thesis by auto
    next
      case (Cons a p')
      with e have "cs = p' @ sub @ q" by simp
      then show ?thesis by blast
    qed
  next
    assume "(\<exists>q. c # cs = sub @ q) \<or> (\<exists>p q. cs = p @ sub @ q)"
    then show "\<exists>p q. c # cs = p @ sub @ q"
    proof
      assume "\<exists>q. c # cs = sub @ q"
      then obtain q where "c # cs = [] @ sub @ q" by auto
      then show ?thesis by blast
    next
      assume "\<exists>p q. cs = p @ sub @ q"
      then obtain p q where "c # cs = (c # p) @ sub @ q" by auto
      then show ?thesis by blast
    qed
  qed
  with Cons show ?case by (simp add: starts_with_iff)
qed

lemma handle_submit_guarded:
  assumes "username st \<noteq> []" "token = Some t" "t \<noteq> []"
  shows "handle_submit token net describe st =
     (let st1 = st\<lparr>is_loading := True, error_message := None\<rparr>;
          req = stats_request t (username st);
          res =
              (case net req of
                 Transport_failure detail \<Rightarrow>
                   (st1\<lparr>error_message := Some (''Network Error: '' @ detail)\<rparr>, None)
               | Reply r \<Rightarrow>
                   if \<not> is_success (status_code r) then
                     (if status_code r = 401 then
                        (st1\<lparr>error_message :=
                           Some ''Invalid access token. Please check your configuration.''\<rparr>,
                         None)
                      else if status_code r = 403 then
                        (st1\<lparr>error_message :=
                           Some ''Access forbidden. Please check your permissions.''\<rparr>,
                         None)
                      else
                        (st1\<lparr>error_message :=
                           Some (''HTTP Error: '' @ status_error_text r)\<rparr>,
                         None))
                   else
                     (case handle_response st1 r of
                        Inl e \<Rightarrow>
                          (st1\<lparr>error_message :=
                             Some (''An unexpected error occurred: '' @ describe e)\<rparr>,
                           None)
                      | Inr out \<Rightarrow> out))
        in ((fst res)\<lparr>is_loading := False\<rparr>, snd res, [req]))"
  using assms by (simp add: handle_submit_def)

lemmas submit_defs = handle_submit_def handle_response_def graphql_errors_def
  user_or_not_found_def lower_def lower_char_def is_success_def reply_with_def
  typed_state_def initial_state_def Let_def

text \<open>The store only grows.\<close>

lemma alloc_extends: "alloc obj h = (v, h') \<Longrightarrow> h' = h @ [obj]"
  by (auto simp: alloc_def)

lemma h_all_posts_extends: "\<exists>new. snd (h_all_posts ud h) = h @ new"
  by (auto simp: h_all_posts_def alloc_def Let_def split: sum.splits)

lemma h_select_posts_2024_extends: "\<exists>new. snd (h_select_posts_2024 ud h) = h @ new"
proof -
  obtain r h2 where a: "h_all_posts ud h = (r, h2)" by (cases "h_all_posts ud h")
  with h_all_posts_extends [of ud h] obtain new where n: "h2 = h @ new" by auto
  show ?thesis
    unfolding h_select_posts_2024_def a
    by (cases r) (auto simp: n alloc_def Let_def split: sum.splits)
qed

lemma h_count_badges_extends: "\<exists>new. snd (h_count_badges ud h) = h @ new"
  by (auto simp: h_count_badges_def alloc_def Let_def split: sum.splits)

lemma h_build_stats_items_extends:
  "\<exists>new. snd (h_build_stats_items c tv tr tf tb h) = h @ new"
  by (auto simp: h_build_stats_items_def alloc_def Let_def split: sum.splits)

lemma h_select_posts_2024_extendsD:
  "h_select_posts_2024 ud h = (r, h') \<Longrightarrow> \<exists>new. h' = h @ new"
  using h_select_posts_2024_extends [of ud h] by simp

lemma h_count_badges_extendsD:
  "h_count_badges ud h = (r, h') \<Longrightarrow> \<exists>new. h' = h @ new"
  using h_count_badges_extends [of ud h] by simp

lemma h_build_stats_items_extendsD:
  "h_build_stats_items c tv tr tf tb h = (r, h') \<Longrightarrow> \<exists>new. h' = h @ new"
  using h_build_stats_items_extends [of c tv tr tf tb h] by simp

lemma process_stats_h_try_extends:
  "(process_stats_h_try st ud h = Inl (e, st', h') \<longrightarrow> (\<exists>new. h' = h @ new))
   \<and> (process_stats_h_try st ud h = Inr (st', h') \<longrightarrow> (\<exists>new. h' = h @ new))"
  unfolding process_stats_h_try_def Let_def
  by (auto split: sum.splits prod.splits
        dest!: h_select_posts_2024_extendsD h_count_badges_extendsD h_build_stats_items_extendsD)

lemma process_stats_h_extends: "\<exists>new. snd (process_stats_h st ud h) = h @ new"
proof (cases "process_stats_h_try st ud h")
  case (Inl t)
  obtain e st' h' where t: "t = (e, st', h')" by (cases t)
  with Inl process_stats_h_try_extends [of st ud h e st' h'] obtain new where "h' = h @ new"
    by auto
  with Inl t show ?thesis by (simp add: process_stats_h_def alloc_def)
next
  case (Inr out)
  obtain st' h' where t: "out = (st', h')" by (cases out)
  with Inr process_stats_h_try_extends [of st ud h _ st' h'] obtain new where "h' = h @ new"
    by auto
  with Inr t show ?thesis by (simp add: process_stats_h_def)
qed

lemma lookup_append: "a < length h \<Longrightarrow> lookup (h @ new) a = lookup h a"
  by (simp add: lookup_def nth_append)

lemma snapshot_append:
  assumes "closed_store h" "val_in h v"
  shows "snapshot n (h @ new) v = snapshot n h v"
  using assms(2)
proof (induction n arbitrary: v)
  case 0
  then show ?case by (cases v) simp_all
next
  case (Suc n)
  show ?case
  proof (cases v)
    case (VRef a)
    with Suc.prems have a: "a < length h" by (simp add: val_in_def)
    then have l: "lookup (h @ new) a = lookup h a" by (rule lookup_append)
    have m: "h ! a \<in> set h" using a by simp
    have c: "\<forall>x \<in> set (obj_vals (h ! a)). val_in h x"
      using assms(1) m by (auto simp: closed_store_def)
    show ?thesis
    proof (cases "h ! a")
      case (ODict kvs)
      with c have "\<forall>kv \<in> set kvs. val_in h (snd kv)" by (auto simp: obj_vals_def)
      then have "map (\<lambda>kv. (fst kv, snapshot n (h @ new) (snd kv))) kvs
               = map (\<lambda>kv. (fst kv, snapshot n h (snd kv))) kvs"
        using Suc.IH by auto
      with VRef l a ODict show ?thesis by (simp add: lookup_def)
    next
      case (OList xs)
      with c have "\<forall>x \<in> set xs. val_in h x" by (auto simp: obj_vals_def)
      then have "map (snapshot n (h @ new)) xs = map (snapshot n h) xs"
        using Suc.IH by auto
      with VRef l a OList show ?thesis by (simp add: lookup_def)
    qed
  qed simp_all
qed

lemmas store_defs = process_stats_h_def process_stats_h_try_def h_select_posts_2024_def
  h_all_posts_def h_keep_post_def h_sum_field_def h_count_badges_def h_build_stats_items_def
  h_metric_def h_str_def h_get_def h_getitem_def h_iter_def h_len_def h_truthy_def
  alloc_def lookup_def scenario_store_def initial_hstate_def dict_items_def

lemma scenario_closed: "closed_store scenario_store \<and> val_in scenario_store (VRef 6)"
  by (simp add: closed_store_def scenario_store_def obj_vals_def val_in_def)

lemma scenario_run:
  "process_stats_h initial_hstate (VRef 6) scenario_store =
     (initial_hstate\<lparr>h_user_data := VRef 6, h_posts_2024 := VRef 9, h_post_count := 1,
        h_user_display_name := VStr ''ada'', h_stats_items := VRef 17\<rparr>,
      scenario_store @
      [ODict [], OList [], OList [VRef 0], OList [],
       h_metric ''Total Articles'' ''1'' ''Articles published in 2024'',
       h_metric ''Total Views'' ''100'' ''Content views in 2024'',
       h_metric ''Total Reactions'' ''10'' ''Reactions in 2024'',
       h_metric ''Followers'' ''10'' ''Total followers'',
       h_metric ''Badges Earned'' ''1'' ''Total badges collected'',
       h_metric ''Avg. Reactions'' ''10.0'' ''Average reactions per post'',
       OList [VRef 11, VRef 12, VRef 13, VRef 14, VRef 15, VRef 16]])"
  by (simp add: store_defs eval_defs)

lemma scenario_degraded_run:
  "process_stats_h initial_hstate (VRef 2) scenario_store =
     (initial_hstate\<lparr>h_user_data := VRef 2, h_stats_items := VRef 8, h_post_count := 0\<rparr>,
      scenario_store @ [ODict [], OList []])"
  by (simp add: store_defs eval_defs)

lemma scenario_models_agree:
  "snapshot 3 (snd (process_stats_h initial_hstate (VRef 6) scenario_store))
     (h_stats_items (fst (process_stats_h initial_hstate (VRef 6) scenario_store)))
   = JList (map (\<lambda>m. JObj (map (\<lambda>kv. (fst kv, JStr (snd kv))) m))
       (stats_items (process_stats initial_state scenario_user)))"
  unfolding scenario_run process_stats_success [OF scenario_try]
  by (simp add: eval_nat_numeral lookup_def scenario_store_def h_metric_def metric_def)

section \<open>Properties of \<^verbatim>\<open>process_stats\<close>\<close>

text \<open>
  C3. An exception raised anywhere in the body of \<^verbatim>\<open>process_stats\<close> is caught: the call
  returns a state, whose metric list is empty and whose post count is zero.
\<close>

theorem process_stats_error_degrades:
  assumes "process_stats_try st ud = Inl (e, st1)"
  shows "process_stats st ud = st1\<lparr>stats_items := [], post_count := 0\<rparr>
       \<and> stats_items (process_stats st ud) = []
       \<and> post_count (process_stats st ud) = 0"
  using assms by (simp add: process_stats_def)

theorem process_stats_error_degrades_witness:
  "process_stats_try initial_state (JObj [(''posts'', JNull)])
     = Inl (AttributeError, initial_state\<lparr>user_data := JObj [(''posts'', JNull)]\<rparr>)
   \<and> stats_items (process_stats initial_state (JObj [(''posts'', JNull)])) = []
   \<and> post_count (process_stats initial_state (JObj [(''posts'', JNull)])) = 0"
proof -
  have t: "process_stats_try initial_state (JObj [(''posts'', JNull)])
     = Inl (AttributeError, initial_state\<lparr>user_data := JObj [(''posts'', JNull)]\<rparr>)"
    by (simp add: process_stats_try_def select_posts_2024_def all_posts_def)
  show ?thesis
    using process_stats_error_degrades [OF t] t by simp
qed





text \<open>
  C2. After a run that raises no exception, the posts kept are the posts of the record on
  which the condition of the comprehension is true, in their order. A post whose
  \<^verbatim>\<open>publishedAt\<close> parses to a year other than 2024 is not among them. The post count is
  their number; it is the value of Total Articles and the divisor of Avg. Reactions, and
  Total Views and Total Reactions are sums over the kept posts only.
\<close>

theorem year_filter_excludes_other_years:
  assumes "process_stats_try st ud = Inr st'"
  shows "\<exists>ap nodes avg.
           all_posts ud = Inr ap \<and> py_iter ap = Inr nodes
         \<and> posts_2024 st' = filter (\<lambda>p. keep_post p = Inr True) nodes
         \<and> (\<forall>kvs s dt. JObj kvs \<in> set nodes
                \<and> map_of kvs ''publishedAt'' = Some (JStr s)
                \<and> fromisoformat (replace_Z s) = Inr dt \<and> year dt \<noteq> 2024
              \<longrightarrow> JObj kvs \<notin> set (posts_2024 st'))
         \<and> post_count st' = int (length (posts_2024 st'))
         \<and> avg_reactions (sum_list (map (field_or_zero ''reactionCount'') (posts_2024 st')))
              (post_count st') = Inr avg
         \<and> stats_items st' ! 0 =
             metric ''Total Articles'' (str_int (post_count st')) ''Articles published in 2024''
         \<and> stats_items st' ! 1 =
             metric ''Total Views''
               (format_commas (sum_list (map (field_or_zero ''views'') (posts_2024 st'))))
               ''Content views in 2024''
         \<and> stats_items st' ! 2 =
             metric ''Total Reactions''
               (str_int (sum_list (map (field_or_zero ''reactionCount'') (posts_2024 st'))))
               ''Reactions in 2024''
         \<and> stats_items st' ! 5 = metric ''Avg. Reactions'' avg ''Average reactions per post''"
proof -
  from process_stats_try_success [OF assms] obtain posts tv tr tf tb name items where
    h: "select_posts_2024 ud = Inr posts" "sum_field ''views'' posts = Inr tv"
       "sum_field ''reactionCount'' posts = Inr tr"
       "build_stats_items (int (length posts)) tv tr tf tb = Inr items"
       "st' = st\<lparr>user_data := ud, posts_2024 := posts, post_count := int (length posts),
                     user_display_name := name, stats_items := items\<rparr>"
    by blast
  from h(1) obtain ap nodes where
    n: "all_posts ud = Inr ap" "py_iter ap = Inr nodes" "filter_exc keep_post nodes = Inr posts"
    by (auto simp: select_posts_2024_def split: sum.splits)
  from filter_exc_Inr [OF n(3)] have
    f: "posts = filter (\<lambda>p. keep_post p = Inr True) nodes" by blast
  have ex: "\<forall>kvs s dt. JObj kvs \<in> set nodes
                \<and> map_of kvs ''publishedAt'' = Some (JStr s)
                \<and> fromisoformat (replace_Z s) = Inr dt \<and> year dt \<noteq> 2024
              \<longrightarrow> JObj kvs \<notin> set posts"
    using keep_post_parsed by (auto simp: f)
  from build_stats_items_Inr [OF h(4)] obtain avg where
    a: "avg_reactions tr (int (length posts)) = Inr avg" and
    i: "items =
        [metric ''Total Articles'' (str_int (int (length posts))) ''Articles published in 2024'',
         metric ''Total Views'' (format_commas tv) ''Content views in 2024'',
         metric ''Total Reactions'' (str_int tr) ''Reactions in 2024'',
         metric ''Followers'' (py_str tf) ''Total followers'',
         metric ''Badges Earned'' (str_int tb) ''Total badges collected'',
         metric ''Avg. Reactions'' avg ''Average reactions per post'']"
    by blast
  have tv: "tv = sum_list (map (field_or_zero ''views'') posts)"
    by (rule sum_field_Inr [OF h(2)])
  have tr: "tr = sum_list (map (field_or_zero ''reactionCount'') posts)"
    by (rule sum_field_Inr [OF h(3)])
  have p: "posts_2024 st' = posts" "post_count st' = int (length posts)" "stats_items st' = items"
    by (simp_all add: h(5))
  show ?thesis
    apply (rule exI [of _ ap], rule exI [of _ nodes], rule exI [of _ avg])
    unfolding p
    using n(1,2) f ex a tv tr by (simp add: i)
qed

theorem year_filter_excludes_other_years_witness:
  "all_posts scenario_user = Inr (JList
      [JObj [(''publishedAt'', JStr ''2024-03-01T00:00:00Z''),
             (''views'', JInt 100), (''reactionCount'', JInt 10)],
       JObj [(''publishedAt'', JStr ''2023-12-31T23:59:59Z''),
             (''views'', JInt 50), (''reactionCount'', JInt 5)]])
   \<and> year \<lparr>year = 2023, month = 12, day = 31, hour = 23, minute = 59, second = 59,
            microsecond = 0, utcoffset = Some 0\<rparr> \<noteq> 2024
   \<and> fromisoformat (replace_Z ''2023-12-31T23:59:59Z'')
       = Inr \<lparr>year = 2023, month = 12, day = 31, hour = 23, minute = 59, second = 59,
               microsecond = 0, utcoffset = Some 0\<rparr>
   \<and> JObj [(''publishedAt'', JStr ''2023-12-31T23:59:59Z''),
            (''views'', JInt 50), (''reactionCount'', JInt 5)]
       \<notin> set (posts_2024 (process_stats initial_state scenario_user))
   \<and> post_count (process_stats initial_state scenario_user) = 1
   \<and> stats_items (process_stats initial_state scenario_user) ! 1
       = metric ''Total Views'' ''100'' ''Content views in 2024''"
proof -
  have a: "all_posts scenario_user = Inr (JList
      [JObj [(''publishedAt'', JStr ''2024-03-01T00:00:00Z''),
             (''views'', JInt 100), (''reactionCount'', JInt 10)],
       JObj [(''publishedAt'', JStr ''2023-12-31T23:59:59Z''),
             (''views'', JInt 50), (''reactionCount'', JInt 5)]])"
    by (simp add: scenario_user_def all_posts_def)
  have d: "fromisoformat (replace_Z ''2023-12-31T23:59:59Z'')
       = Inr \<lparr>year = 2023, month = 12, day = 31, hour = 23, minute = 59, second = 59,
               microsecond = 0, utcoffset = Some 0\<rparr>"
    by (simp add: eval_defs)
  have p: "process_stats initial_state scenario_user =
     initial_state\<lparr>user_data := scenario_user,
        posts_2024 :=
          [JObj [(''publishedAt'', JStr ''2024-03-01T00:00:00Z''),
                     (''views'', JInt 100), (''reactionCount'', JInt 10)]],
        post_count := 1,
        user_display_name := JStr ''ada'',
        stats_items :=
          [metric ''Total Articles'' ''1'' ''Articles published in 2024'',
           metric ''Total Views'' ''100'' ''Content views in 2024'',
           metric ''Total Reactions'' ''10'' ''Reactions in 2024'',
           metric ''Followers'' ''10'' ''Total followers'',
           metric ''Badges Earned'' ''1'' ''Total badges collected'',
           metric ''Avg. Reactions'' ''10.0'' ''Average reactions per post'']\<rparr>"
    by (simp add: process_stats_def scenario_try)
  have c: ?thesis
    using a d by (simp add: p)
  from year_filter_excludes_other_years [OF scenario_try] show ?thesis
    by - (rule c)
qed

text \<open>
  C4, as stated, fails: a post whose \<^verbatim>\<open>publishedAt\<close> is a text that does not parse is not
  dropped. The ValueError of the parser leaves the comprehension, and the run ends with
  no metric and a post count of zero, although the other post of the record is of 2024.
\<close>

theorem unparsable_post_counterexample:
  "keep_post (JObj [(''publishedAt'', JStr ''yesterday''), (''views'', JInt 5)]) = Inl ValueError
   \<and> stats_items (process_stats initial_state (user_record []
        [JObj [(''publishedAt'', JStr ''2024-03-01T00:00:00Z''), (''views'', JInt 100),
               (''reactionCount'', JInt 10)],
         JObj [(''publishedAt'', JStr ''yesterday''), (''views'', JInt 5)]])) = []
   \<and> post_count (process_stats initial_state (user_record []
        [JObj [(''publishedAt'', JStr ''2024-03-01T00:00:00Z''), (''views'', JInt 100),
               (''reactionCount'', JInt 10)],
         JObj [(''publishedAt'', JStr ''yesterday''), (''views'', JInt 5)]])) = 0
   \<and> post_count (process_stats initial_state (user_record []
        [JObj [(''publishedAt'', JStr ''2024-03-01T00:00:00Z''), (''views'', JInt 100),
               (''reactionCount'', JInt 10)]])) = 1
   \<and> stats_items (process_stats initial_state (user_record []
        [JObj [(''publishedAt'', JStr ''2024-03-01T00:00:00Z''), (''views'', JInt 100),
               (''reactionCount'', JInt 10)]])) \<noteq> []"
  by (simp add: user_record_def eval_defs)

text \<open>
  C4, amended. A post whose \<^verbatim>\<open>publishedAt\<close> is absent, \<^verbatim>\<open>None\<close>, empty or otherwise
  false is dropped without an exception: the run gives the same metrics, post count and
  kept posts as on the record without that post. A post whose \<^verbatim>\<open>publishedAt\<close> is a
  non-empty text that does not parse is not dropped on its own: whenever the record has
  such a post, the run ends with no metric and a post count of zero.
\<close>

theorem missing_dropped_unparsable_degrades:
  "((case map_of kvs ''publishedAt'' of None \<Rightarrow> True | Some v \<Rightarrow> \<not> truthy v) \<longrightarrow>
       keep_post (JObj kvs) = Inr False
     \<and> stats_items (process_stats st (user_record others (xs @ JObj kvs # ys)))
         = stats_items (process_stats st (user_record others (xs @ ys)))
     \<and> post_count (process_stats st (user_record others (xs @ JObj kvs # ys)))
         = post_count (process_stats st (user_record others (xs @ ys)))
     \<and> posts_2024 (process_stats st (user_record others (xs @ JObj kvs # ys)))
         = posts_2024 (process_stats st (user_record others (xs @ ys))))
   \<and> (map_of kvs ''publishedAt'' = Some (JStr s) \<and> s \<noteq> []
        \<and> fromisoformat (replace_Z s) = Inl e
        \<and> all_posts ud = Inr ap \<and> py_iter ap = Inr nodes \<and> JObj kvs \<in> set nodes \<longrightarrow>
       stats_items (process_stats st ud) = [] \<and> post_count (process_stats st ud) = 0)"
proof (intro conjI impI)
  assume m: "case map_of kvs ''publishedAt'' of None \<Rightarrow> True | Some v \<Rightarrow> \<not> truthy v"
  show k: "keep_post (JObj kvs) = Inr False" by (rule keep_post_missing [OF m])
  have f: "filter_exc keep_post (xs @ JObj kvs # ys) = filter_exc keep_post (xs @ ys)"
    using k by (rule filter_exc_drop [of keep_post "JObj kvs" xs ys])
  note c = process_stats_user_record_cong [OF f, of st others]
  show "stats_items (process_stats st (user_record others (xs @ JObj kvs # ys)))
         = stats_items (process_stats st (user_record others (xs @ ys)))"
    using c by blast
  show "post_count (process_stats st (user_record others (xs @ JObj kvs # ys)))
         = post_count (process_stats st (user_record others (xs @ ys)))"
    using c by blast
  show "posts_2024 (process_stats st (user_record others (xs @ JObj kvs # ys)))
         = posts_2024 (process_stats st (user_record others (xs @ ys)))"
    using c by blast
next
  assume u: "map_of kvs ''publishedAt'' = Some (JStr s) \<and> s \<noteq> []
        \<and> fromisoformat (replace_Z s) = Inl e
        \<and> all_posts ud = Inr ap \<and> py_iter ap = Inr nodes \<and> JObj kvs \<in> set nodes"
  then have "keep_post (JObj kvs) = Inl e" by (simp add: keep_post_unparsable)
  with u obtain e' where "filter_exc keep_post nodes = Inl e'"
    using filter_exc_Inl [of "JObj kvs" nodes keep_post e] by blast
  with u have s: "select_posts_2024 ud = Inl e'" by (simp add: select_posts_2024_def)
  from select_fails_degrades [OF s]
  show "stats_items (process_stats st ud) = []" "post_count (process_stats st ud) = 0"
    by blast+
qed

theorem missing_dropped_unparsable_degrades_witness:
  "(case map_of [(''publishedAt'', JNull), (''views'', JInt 9)] ''publishedAt'' of
      None \<Rightarrow> True | Some v \<Rightarrow> \<not> truthy v)
   \<and> post_count (process_stats initial_state (user_record []
        ([JObj [(''publishedAt'', JStr ''2024-03-01T00:00:00Z''), (''views'', JInt 100)]]
         @ JObj [(''publishedAt'', JNull), (''views'', JInt 9)] # []))) = 1
   \<and> map_of [(''publishedAt'', JStr ''yesterday'')] ''publishedAt'' = Some (JStr ''yesterday'')
   \<and> fromisoformat (replace_Z ''yesterday'') = Inl ValueError
   \<and> all_posts (user_record []
        [JObj [(''publishedAt'', JStr ''2024-03-01T00:00:00Z''), (''views'', JInt 100)],
         JObj [(''publishedAt'', JStr ''yesterday'')]])
       = Inr (JList
        [JObj [(''publishedAt'', JStr ''2024-03-01T00:00:00Z''), (''views'', JInt 100)],
         JObj [(''publishedAt'', JStr ''yesterday'')]])
   \<and> post_count (process_stats initial_state (user_record []
        [JObj [(''publishedAt'', JStr ''2024-03-01T00:00:00Z''), (''views'', JInt 100)],
         JObj [(''publishedAt'', JStr ''yesterday'')]])) = 0
   \<and> stats_items (process_stats initial_state (user_record []
        [JObj [(''publishedAt'', JStr ''2024-03-01T00:00:00Z''), (''views'', JInt 100)],
         JObj [(''publishedAt'', JStr ''yesterday'')]])) = []"
proof -
  have c: ?thesis
    by (simp add: user_record_def eval_defs)
  from missing_dropped_unparsable_degrades
         [of "[(''publishedAt'', JNull), (''views'', JInt 9)]" initial_state "[]"
             "[JObj [(''publishedAt'', JStr ''2024-03-01T00:00:00Z''), (''views'', JInt 100)]]"
             "[]" "''yesterday''" ValueError]
  show ?thesis by - (rule c)
qed

text \<open>
  C5, as stated, fails for a timestamp with an offset other than zero: the filter reads
  the year written in the text and does not convert the instant to UTC. A post published
  at 00:30 on 1 January 2024 at offset +02:00, which is 22:30 on 31 December 2023 in UTC,
  is kept; a post published at 23:30 on 31 December 2023 at offset -05:00, which is 04:30
  on 1 January 2024 in UTC, is dropped.
\<close>

theorem utc_year_filter_counterexample:
  "fromisoformat (replace_Z ''2024-01-01T00:30:00+02:00'')
     = Inr \<lparr>year = 2024, month = 1, day = 1, hour = 0, minute = 30, second = 0,
             microsecond = 0, utcoffset = Some 7200000000\<rparr>
   \<and> utc_year \<lparr>year = 2024, month = 1, day = 1, hour = 0, minute = 30, second = 0,
                microsecond = 0, utcoffset = Some 7200000000\<rparr> = 2023
   \<and> keep_post (JObj [(''publishedAt'', JStr ''2024-01-01T00:30:00+02:00'')]) = Inr True
   \<and> fromisoformat (replace_Z ''2023-12-31T23:30:00-05:00'')
     = Inr \<lparr>year = 2023, month = 12, day = 31, hour = 23, minute = 30, second = 0,
             microsecond = 0, utcoffset = Some (- 18000000000)\<rparr>
   \<and> utc_year \<lparr>year = 2023, month = 12, day = 31, hour = 23, minute = 30, second = 0,
                microsecond = 0, utcoffset = Some (- 18000000000)\<rparr> = 2024
   \<and> keep_post (JObj [(''publishedAt'', JStr ''2023-12-31T23:30:00-05:00'')]) = Inr False"
  by (simp add: eval_defs utc_year_def days_before_month_def upto.simps)

text \<open>
  C5, amended. The filter compares the year field of the parsed timestamp, which is the
  calendar year at the timestamp's own offset, with 2024, after every \<^verbatim>\<open>Z\<close> of the text
  has been replaced by \<^verbatim>\<open>+00:00\<close> (so a trailing \<^verbatim>\<open>Z\<close> is read as that offset). For a
  timestamp whose offset is zero, or that has no offset, this is the calendar year of the
  instant in UTC.
\<close>

theorem year_filter_written_year:
  "map_of kvs ''publishedAt'' = Some (JStr s) \<and> fromisoformat (replace_Z s) = Inr dt \<longrightarrow>
     keep_post (JObj kvs) = Inr (year dt = 2024)
   \<and> (utcoffset dt = None \<or> utcoffset dt = Some 0 \<longrightarrow> utc_year dt = year dt)
   \<and> replace_Z (s @ ''Z'') = replace_Z s @ ''+00:00''"
proof (intro impI conjI)
  assume a: "map_of kvs ''publishedAt'' = Some (JStr s) \<and> fromisoformat (replace_Z s) = Inr dt"
  then show "keep_post (JObj kvs) = Inr (year dt = 2024)"
    by (simp add: keep_post_parsed)
  assume "utcoffset dt = None \<or> utcoffset dt = Some 0"
  with a show "utc_year dt = year dt"
    using utc_year_zero_offset [of "replace_Z s" dt] by simp
next
  show "replace_Z (s @ ''Z'') = replace_Z s @ ''+00:00''"
    by (simp add: replace_Z_def)
qed

theorem year_filter_written_year_witness:
  "map_of [(''publishedAt'', JStr ''2024-03-01T00:00:00Z''), (''views'', JInt 100)] ''publishedAt''
     = Some (JStr ''2024-03-01T00:00:00Z'')
   \<and> fromisoformat (replace_Z ''2024-03-01T00:00:00Z'')
     = Inr \<lparr>year = 2024, month = 3, day = 1, hour = 0, minute = 0, second = 0,
             microsecond = 0, utcoffset = Some 0\<rparr>
   \<and> keep_post (JObj [(''publishedAt'', JStr ''2024-03-01T00:00:00Z''), (''views'', JInt 100)])
     = Inr True
   \<and> utc_year \<lparr>year = 2024, month = 3, day = 1, hour = 0, minute = 0, second = 0,
                microsecond = 0, utcoffset = Some 0\<rparr> = 2024"
proof -
  have c: ?thesis
    by (simp add: eval_defs utc_year_def days_before_month_def upto.simps)
  from year_filter_written_year
         [of "[(''publishedAt'', JStr ''2024-03-01T00:00:00Z''), (''views'', JInt 100)]"
             "''2024-03-01T00:00:00Z''"
             "\<lparr>year = 2024, month = 3, day = 1, hour = 0, minute = 0, second = 0,
               microsecond = 0, utcoffset = Some 0\<rparr>"]
  show ?thesis by - (rule c)
qed

text \<open>
  C10. A field that is absent counts as 0. A post without \<^verbatim>\<open>views\<close> (or without
  \<^verbatim>\<open>reactionCount\<close>) contributes 0 to the sum, and the run gives the same metrics and
  post count as on the record where that post carries the field with the value 0; a
  record without \<^verbatim>\<open>followersCount\<close> gives the same result as with
  \<^verbatim>\<open>followersCount\<close> 0, and a record without \<^verbatim>\<open>badges\<close> the same as with an empty
  list of badges. Absence alone raises nothing: when no post has either field and the
  record has no follower count and no badge (or an empty list), the run yields the six
  metrics, with \<^verbatim>\<open>"0"\<close> for the views, the reactions, the followers and the badges.
\<close>

theorem absent_fields_default_zero:
  "(map_of kvs k = None \<and> (k = ''views'' \<or> k = ''reactionCount'') \<longrightarrow>
      field_or_zero k (JObj kvs) = 0
    \<and> stats_items (process_stats st (user_record others (xs @ JObj kvs # ys)))
        = stats_items (process_stats st
            (user_record others (xs @ JObj (kvs @ [(k, JInt 0)]) # ys)))
    \<and> post_count (process_stats st (user_record others (xs @ JObj kvs # ys)))
        = post_count (process_stats st
            (user_record others (xs @ JObj (kvs @ [(k, JInt 0)]) # ys))))
   \<and> (map_of others ''followersCount'' = None \<longrightarrow>
      stats_items (process_stats st (user_record others nodes))
        = stats_items (process_stats st
            (user_record (others @ [(''followersCount'', JInt 0)]) nodes))
    \<and> post_count (process_stats st (user_record others nodes))
        = post_count (process_stats st
            (user_record (others @ [(''followersCount'', JInt 0)]) nodes)))
   \<and> (map_of others ''badges'' = None \<longrightarrow>
      stats_items (process_stats st (user_record others nodes))
        = stats_items (process_stats st (user_record (others @ [(''badges'', JList [])]) nodes))
    \<and> post_count (process_stats st (user_record others nodes))
        = post_count (process_stats st (user_record (others @ [(''badges'', JList [])]) nodes)))
   \<and> ((\<forall>p\<in>set nodes. \<exists>kvs b. p = JObj kvs \<and> map_of kvs ''views'' = None
              \<and> map_of kvs ''reactionCount'' = None \<and> keep_post p = Inr b)
       \<and> map_of others ''followersCount'' = None
       \<and> (map_of others ''badges'' = None \<or> map_of others ''badges'' = Some (JList [])) \<longrightarrow>
      stats_items (process_stats st (user_record others nodes)) =
          [metric ''Total Articles''
             (str_int (int (length (filter (\<lambda>p. keep_post p = Inr True) nodes))))
             ''Articles published in 2024'',
           metric ''Total Views'' ''0'' ''Content views in 2024'',
           metric ''Total Reactions'' ''0'' ''Reactions in 2024'',
           metric ''Followers'' ''0'' ''Total followers'',
           metric ''Badges Earned'' ''0'' ''Total badges collected'',
           metric ''Avg. Reactions''
             (if filter (\<lambda>p. keep_post p = Inr True) nodes = [] then ''0'' else ''0.0'')
             ''Average reactions per post''])"
proof (intro conjI impI)
  assume a: "map_of kvs k = None \<and> (k = ''views'' \<or> k = ''reactionCount'')"
  then show "field_or_zero k (JObj kvs) = 0" by (simp add: field_or_zero_def)
  from a have n: "map_of kvs k = None" "k \<noteq> ''publishedAt''" by auto
  note p = absent_post_field [OF n, of st others xs ys]
  show "stats_items (process_stats st (user_record others (xs @ JObj kvs # ys)))
        = stats_items (process_stats st
            (user_record others (xs @ JObj (kvs @ [(k, JInt 0)]) # ys)))"
    using p by blast
  show "post_count (process_stats st (user_record others (xs @ JObj kvs # ys)))
        = post_count (process_stats st
            (user_record others (xs @ JObj (kvs @ [(k, JInt 0)]) # ys)))"
    using p by blast
next
  assume a: "map_of others ''followersCount'' = None"
  note p = absent_followers [OF a, of st nodes]
  show "stats_items (process_stats st (user_record others nodes))
        = stats_items (process_stats st
            (user_record (others @ [(''followersCount'', JInt 0)]) nodes))"
    using p by blast
  show "post_count (process_stats st (user_record others nodes))
        = post_count (process_stats st
            (user_record (others @ [(''followersCount'', JInt 0)]) nodes))"
    using p by blast
next
  assume a: "map_of others ''badges'' = None"
  note p = absent_badges [OF a, of st nodes]
  show "stats_items (process_stats st (user_record others nodes))
        = stats_items (process_stats st (user_record (others @ [(''badges'', JList [])]) nodes))"
    using p by blast
  show "post_count (process_stats st (user_record others nodes))
        = post_count (process_stats st (user_record (others @ [(''badges'', JList [])]) nodes))"
    using p by blast
next
  assume a: "(\<forall>p\<in>set nodes. \<exists>kvs b. p = JObj kvs \<and> map_of kvs ''views'' = None
              \<and> map_of kvs ''reactionCount'' = None \<and> keep_post p = Inr b)
       \<and> map_of others ''followersCount'' = None
       \<and> (map_of others ''badges'' = None \<or> map_of others ''badges'' = Some (JList []))"
  then show "stats_items (process_stats st (user_record others nodes)) =
          [metric ''Total Articles''
             (str_int (int (length (filter (\<lambda>p. keep_post p = Inr True) nodes))))
             ''Articles published in 2024'',
           metric ''Total Views'' ''0'' ''Content views in 2024'',
           metric ''Total Reactions'' ''0'' ''Reactions in 2024'',
           metric ''Followers'' ''0'' ''Total followers'',
           metric ''Badges Earned'' ''0'' ''Total badges collected'',
           metric ''Avg. Reactions''
             (if filter (\<lambda>p. keep_post p = Inr True) nodes = [] then ''0'' else ''0.0'')
             ''Average reactions per post'']"
    using all_absent_success [of nodes others st] by blast
qed

theorem absent_fields_default_zero_witness:
  "map_of [(''publishedAt'', JStr ''2024-03-01T00:00:00Z'')] ''views'' = None
   \<and> map_of [(''publishedAt'', JStr ''2024-03-01T00:00:00Z'')] ''reactionCount'' = None
   \<and> keep_post (JObj [(''publishedAt'', JStr ''2024-03-01T00:00:00Z'')]) = Inr True
   \<and> map_of ([] :: (string \<times> json) list) ''followersCount'' = None
   \<and> map_of ([] :: (string \<times> json) list) ''badges'' = None
   \<and> stats_items (process_stats initial_state
        (user_record [] [JObj [(''publishedAt'', JStr ''2024-03-01T00:00:00Z'')]])) =
          [metric ''Total Articles'' ''1'' ''Articles published in 2024'',
           metric ''Total Views'' ''0'' ''Content views in 2024'',
           metric ''Total Reactions'' ''0'' ''Reactions in 2024'',
           metric ''Followers'' ''0'' ''Total followers'',
           metric ''Badges Earned'' ''0'' ''Total badges collected'',
           metric ''Avg. Reactions'' ''0.0'' ''Average reactions per post'']
   \<and> stats_items (process_stats initial_state
        (user_record [(''followersCount'', JInt 0), (''badges'', JList [])]
           [JObj [(''publishedAt'', JStr ''2024-03-01T00:00:00Z''), (''views'', JInt 0),
                  (''reactionCount'', JInt 0)]])) =
          [metric ''Total Articles'' ''1'' ''Articles published in 2024'',
           metric ''Total Views'' ''0'' ''Content views in 2024'',
           metric ''Total Reactions'' ''0'' ''Reactions in 2024'',
           metric ''Followers'' ''0'' ''Total followers'',
           metric ''Badges Earned'' ''0'' ''Total badges collected'',
           metric ''Avg. Reactions'' ''0.0'' ''Average reactions per post'']"
proof -
  have c: ?thesis
    by (simp add: user_record_def eval_defs)
  from absent_fields_default_zero
         [of "[(''publishedAt'', JStr ''2024-03-01T00:00:00Z'')]" "''views''" initial_state
             "[]" "[]" "[]" "[JObj [(''publishedAt'', JStr ''2024-03-01T00:00:00Z'')]]"]
  show ?thesis by - (rule c)
qed

section \<open>Properties of \<^verbatim>\<open>handle_submit\<close>\<close>

text \<open>
  C7, as stated, fails on four bodies of a response with a status of success. With
  \<^verbatim>\<open>{"data": null}\<close> there is no error and no user, and the outcome is the error of an
  unexpected exception (\<^verbatim>\<open>None\<close> has no \<^verbatim>\<open>get\<close>), not \<^verbatim>\<open>User not found\<close>. With a user
  that is present and not null but empty, \<^verbatim>\<open>{"data": {"user": {}}}\<close>, the outcome is
  \<^verbatim>\<open>User not found\<close>, and no record is processed. With an empty error list, and with a
  first error whose message is null, no message is classified: the outcome is the error
  of an unexpected exception.
\<close>

theorem graphql_body_counterexample:
  "handle_submit (Some ''tok'') (always_reply (reply_with 200 (JObj [(''data'', JNull)])))
      exc_name typed_state
     = (typed_state\<lparr>error_message := Some ''An unexpected error occurred: AttributeError''\<rparr>,
        None, [stats_request ''tok'' ''ada''])
   \<and> handle_submit (Some ''tok'')
      (always_reply (reply_with 200 (JObj [(''data'', JObj [(''user'', JObj [])])])))
      exc_name typed_state
     = (typed_state\<lparr>error_message := Some ''User not found''\<rparr>,
        None, [stats_request ''tok'' ''ada''])
   \<and> handle_submit (Some ''tok'') (always_reply (reply_with 200 (JObj [(''errors'', JList [])])))
      exc_name typed_state
     = (typed_state\<lparr>error_message := Some ''An unexpected error occurred: IndexError''\<rparr>,
        None, [stats_request ''tok'' ''ada''])
   \<and> handle_submit (Some ''tok'')
      (always_reply (reply_with 200 (JObj [(''errors'', JList [JObj [(''message'', JNull)]])])))
      exc_name typed_state
     = (typed_state\<lparr>error_message := Some ''An unexpected error occurred: AttributeError''\<rparr>,
        None, [stats_request ''tok'' ''ada''])"
  by (simp add: submit_defs always_reply_def)

text \<open>
  C7, amended. With a user name and an access token, when the response has a status of
  success and its body decodes to a dictionary:
  if the body has an error list whose first entry is a dictionary with a text as message,
  or with no message (then \<^verbatim>\<open>"Unknown GraphQL error"\<close>), the message is put in lower case
  and searched for \<^verbatim>\<open>unauthorized\<close> and \<^verbatim>\<open>authentication\<close>; on a match the error is the
  one of an invalid access token, otherwise it is \<^verbatim>\<open>API Error:\<close> followed by the
  message. If the error list is empty, or the message of its first entry is not a text,
  the error is the one of an unexpected exception.
  If the body has no \<^verbatim>\<open>errors\<close> key and its \<^verbatim>\<open>data\<close> is absent, or is a dictionary whose
  user is absent, null or otherwise false (an empty dictionary), the error is
  \<^verbatim>\<open>User not found\<close>. If \<^verbatim>\<open>data\<close> is a dictionary with a user that is true, the user is
  passed to \<^verbatim>\<open>process_stats\<close> and the call returns the redirect to the page of the
  statistics.
\<close>

theorem graphql_body_outcomes:
  assumes "username st \<noteq> []" "token = Some t" "t \<noteq> []"
    and "net (stats_request t (username st)) = Reply r" "is_success (status_code r)"
    and "json_result r = Inr (JObj kvs)"
  shows "(map_of kvs ''errors'' = Some (JList (JObj err # rest))
          \<and> (map_of err ''message'' = Some (JStr m)
              \<or> map_of err ''message'' = None \<and> m = ''Unknown GraphQL error'') \<longrightarrow>
            handle_submit token net describe st =
              (st\<lparr>is_loading := False, error_message := Some
                 (if (\<exists>p q. lower m = p @ ''unauthorized'' @ q)
                      \<or> (\<exists>p q. lower m = p @ ''authentication'' @ q)
                  then ''Invalid access token. Please check your configuration.''
                  else ''API Error: '' @ m)\<rparr>,
               None, [stats_request t (username st)]))
       \<and> (map_of kvs ''errors'' = Some (JList []) \<longrightarrow>
            handle_submit token net describe st =
              (st\<lparr>is_loading := False, error_message :=
                    Some (''An unexpected error occurred: '' @ describe IndexError)\<rparr>,
               None, [stats_request t (username st)]))
       \<and> (map_of kvs ''errors'' = Some (JList (JObj err # rest))
          \<and> map_of err ''message'' = Some v \<and> (\<forall>s. v \<noteq> JStr s) \<longrightarrow>
            handle_submit token net describe st =
              (st\<lparr>is_loading := False, error_message :=
                    Some (''An unexpected error occurred: '' @ describe AttributeError)\<rparr>,
               None, [stats_request t (username st)]))
       \<and> (map_of kvs ''errors'' = None
          \<and> (map_of kvs ''data'' = None
              \<or> (\<exists>d. map_of kvs ''data'' = Some (JObj d)
                    \<and> (case map_of d ''user'' of None \<Rightarrow> True | Some u \<Rightarrow> \<not> truthy u))) \<longrightarrow>
            handle_submit token net describe st =
              (st\<lparr>is_loading := False, error_message := Some ''User not found''\<rparr>,
               None, [stats_request t (username st)]))
       \<and> (map_of kvs ''errors'' = None \<and> map_of kvs ''data'' = Some (JObj d)
          \<and> map_of d ''user'' = Some u \<and> truthy u \<longrightarrow>
            handle_submit token net describe st =
              ((process_stats (st\<lparr>is_loading := True, error_message := None\<rparr>) u)
                  \<lparr>is_loading := False\<rparr>,
               Some ''/stats'', [stats_request t (username st)]))"
proof (intro conjI impI)
  assume a: "map_of kvs ''errors'' = Some (JList (JObj err # rest))
          \<and> (map_of err ''message'' = Some (JStr m)
              \<or> map_of err ''message'' = None \<and> m = ''Unknown GraphQL error'')"
  then have "map_of kvs ''errors'' \<noteq> None" by auto
  then have i: "py_in ''errors'' (JObj kvs) = Inr True"
    by (simp add: map_of_eq_None_iff)
  from a have g: "py_get (JObj err) ''message'' (JStr ''Unknown GraphQL error'') = Inr (JStr m)"
    by auto
  have "handle_response (st\<lparr>is_loading := True, error_message := None\<rparr>) r =
          Inr (st\<lparr>is_loading := True, error_message := Some
                 (if contains (lower m) ''unauthorized'' \<or> contains (lower m) ''authentication''
                  then ''Invalid access token. Please check your configuration.''
                  else ''API Error: '' @ m)\<rparr>, None)"
  proof -
    have e: "py_getitem (JObj kvs) ''errors'' = Inr (JList (JObj err # rest))"
      using a by simp
    have "graphql_errors (st\<lparr>is_loading := True, error_message := None\<rparr>) (JObj kvs) =
          Inr (st\<lparr>is_loading := True, error_message := Some
                 (if contains (lower m) ''unauthorized'' \<or> contains (lower m) ''authentication''
                  then ''Invalid access token. Please check your configuration.''
                  else ''API Error: '' @ m)\<rparr>, None)"
      unfolding graphql_errors_def e by (simp add: g del: py_get.simps)
    then show ?thesis
      by (simp add: handle_response_def assms(6) i del: py_in.simps)
  qed
  then show "handle_submit token net describe st =
              (st\<lparr>is_loading := False, error_message := Some
                 (if (\<exists>p q. lower m = p @ ''unauthorized'' @ q)
                      \<or> (\<exists>p q. lower m = p @ ''authentication'' @ q)
                  then ''Invalid access token. Please check your configuration.''
                  else ''API Error: '' @ m)\<rparr>,
               None, [stats_request t (username st)])"
    unfolding handle_submit_guarded [OF assms(1-3)] contains_iff [symmetric]
    by (simp add: Let_def assms(4,5))
next
  assume a: "map_of kvs ''errors'' = Some (JList [])"
  then have "map_of kvs ''errors'' \<noteq> None" by auto
  then have i: "py_in ''errors'' (JObj kvs) = Inr True"
    by (simp add: map_of_eq_None_iff)
  have "graphql_errors (st\<lparr>is_loading := True, error_message := None\<rparr>) (JObj kvs)
          = Inl IndexError"
    using a by (simp add: graphql_errors_def)
  then have "handle_response (st\<lparr>is_loading := True, error_message := None\<rparr>) r
          = Inl IndexError"
    by (simp add: handle_response_def assms(6) i del: py_in.simps)
  then show "handle_submit token net describe st =
              (st\<lparr>is_loading := False, error_message :=
                    Some (''An unexpected error occurred: '' @ describe IndexError)\<rparr>,
               None, [stats_request t (username st)])"
    unfolding handle_submit_guarded [OF assms(1-3)]
    by (simp add: Let_def assms(4,5))
next
  assume a: "map_of kvs ''errors'' = Some (JList (JObj err # rest))
          \<and> map_of err ''message'' = Some v \<and> (\<forall>s. v \<noteq> JStr s)"
  then have "map_of kvs ''errors'' \<noteq> None" by auto
  then have i: "py_in ''errors'' (JObj kvs) = Inr True"
    by (simp add: map_of_eq_None_iff)
  from a have l: "py_lower v = Inl AttributeError" by (cases v) auto
  have "graphql_errors (st\<lparr>is_loading := True, error_message := None\<rparr>) (JObj kvs)
          = Inl AttributeError"
    using a l by (simp add: graphql_errors_def)
  then have "handle_response (st\<lparr>is_loading := True, error_message := None\<rparr>) r
          = Inl AttributeError"
    by (simp add: handle_response_def assms(6) i del: py_in.simps)
  then show "handle_submit token net describe st =
              (st\<lparr>is_loading := False, error_message :=
                    Some (''An unexpected error occurred: '' @ describe AttributeError)\<rparr>,
               None, [stats_request t (username st)])"
    unfolding handle_submit_guarded [OF assms(1-3)]
    by (simp add: Let_def assms(4,5))
next
  assume a: "map_of kvs ''errors'' = None
          \<and> (map_of kvs ''data'' = None
              \<or> (\<exists>d. map_of kvs ''data'' = Some (JObj d)
                    \<and> (case map_of d ''user'' of None \<Rightarrow> True | Some u \<Rightarrow> \<not> truthy u)))"
  then have i: "py_in ''errors'' (JObj kvs) = Inr False"
    by (auto simp: map_of_eq_None_iff)
  have "handle_response (st\<lparr>is_loading := True, error_message := None\<rparr>) r =
          Inr (st\<lparr>is_loading := True, error_message := Some ''User not found''\<rparr>, None)"
  proof -
    have "user_or_not_found (st\<lparr>is_loading := True, error_message := None\<rparr>) (JObj kvs) =
          Inr (st\<lparr>is_loading := True, error_message := Some ''User not found''\<rparr>, None)"
      using a by (auto simp: user_or_not_found_def split: option.splits)
    then show ?thesis
      by (simp add: handle_response_def assms(6) i del: py_in.simps)
  qed
  then show "handle_submit token net describe st =
              (st\<lparr>is_loading := False, error_message := Some ''User not found''\<rparr>,
               None, [stats_request t (username st)])"
    unfolding handle_submit_guarded [OF assms(1-3)]
    by (simp add: Let_def assms(4,5))
next
  assume a: "map_of kvs ''errors'' = None \<and> map_of kvs ''data'' = Some (JObj d)
          \<and> map_of d ''user'' = Some u \<and> truthy u"
  then have i: "py_in ''errors'' (JObj kvs) = Inr False"
    by (auto simp: map_of_eq_None_iff)
  have "handle_response (st\<lparr>is_loading := True, error_message := None\<rparr>) r =
          Inr (process_stats (st\<lparr>is_loading := True, error_message := None\<rparr>) u, Some ''/stats'')"
  proof -
    have "user_or_not_found (st\<lparr>is_loading := True, error_message := None\<rparr>) (JObj kvs) =
          Inr (process_stats (st\<lparr>is_loading := True, error_message := None\<rparr>) u, Some ''/stats'')"
      using a by (simp add: user_or_not_found_def)
    then show ?thesis
      by (simp add: handle_response_def assms(6) i del: py_in.simps)
  qed
  then show "handle_submit token net describe st =
              ((process_stats (st\<lparr>is_loading := True, error_message := None\<rparr>) u)
                  \<lparr>is_loading := False\<rparr>,
               Some ''/stats'', [stats_request t (username st)])"
    unfolding handle_submit_guarded [OF assms(1-3)]
    by (simp add: Let_def assms(4,5))
qed

theorem graphql_body_outcomes_witness:
  "handle_submit (Some ''tok'')
      (always_reply (reply_with 200
         (JObj [(''errors'', JList [JObj [(''message'', JStr ''Authentication required'')]])])))
      exc_name typed_state
     = (typed_state\<lparr>error_message :=
           Some ''Invalid access token. Please check your configuration.''\<rparr>,
        None, [stats_request ''tok'' ''ada''])
   \<and> handle_submit (Some ''tok'')
      (always_reply (reply_with 200
         (JObj [(''errors'', JList [JObj [(''message'', JStr ''User not authenticated'')]])])))
      exc_name typed_state
     = (typed_state\<lparr>error_message := Some ''API Error: User not authenticated''\<rparr>,
        None, [stats_request ''tok'' ''ada''])
   \<and> handle_submit (Some ''tok'')
      (always_reply (reply_with 200 (JObj [(''errors'', JList [])])))
      exc_name typed_state
     = (typed_state\<lparr>error_message := Some ''An unexpected error occurred: IndexError''\<rparr>,
        None, [stats_request ''tok'' ''ada''])
   \<and> handle_submit (Some ''tok'')
      (always_reply (reply_with 200 (JObj [(''errors'', JList [JObj [(''message'', JInt 7)]])])))
      exc_name typed_state
     = (typed_state\<lparr>error_message := Some ''An unexpected error occurred: AttributeError''\<rparr>,
        None, [stats_request ''tok'' ''ada''])
   \<and> handle_submit (Some ''tok'')
      (always_reply (reply_with 200 (JObj [(''data'', JObj [(''user'', JNull)])])))
      exc_name typed_state
     = (typed_state\<lparr>error_message := Some ''User not found''\<rparr>,
        None, [stats_request ''tok'' ''ada''])
   \<and> handle_submit (Some ''tok'')
      (always_reply (reply_with 200 (JObj [(''data'', JObj [(''user'', scenario_user)])])))
      exc_name typed_state
     = ((process_stats (typed_state\<lparr>is_loading := True, error_message := None\<rparr>)
           scenario_user)\<lparr>is_loading := False\<rparr>,
        Some ''/stats'', [stats_request ''tok'' ''ada''])"
proof -
  have c: ?thesis
    by (simp add: submit_defs always_reply_def scenario_user_def)
  have u: "username typed_state \<noteq> []" "Some ''tok'' = Some ''tok''" "''tok'' \<noteq> []"
    by (simp_all add: typed_state_def initial_state_def)
  have s: "is_success (status_code (reply_with 200 b))" for b
    by (simp add: is_success_def reply_with_def)
  have j: "json_result (reply_with 200 (JObj kvs)) = Inr (JObj kvs)" for kvs
    by (simp add: reply_with_def)
  have n: "always_reply (reply_with 200 b) (stats_request ''tok'' (username typed_state))
             = Reply (reply_with 200 b)" for b
    by (simp add: always_reply_def)
  from graphql_body_outcomes
         [where st = typed_state and token = "Some ''tok''" and t = "''tok''"
            and net = "always_reply (reply_with 200
               (JObj [(''errors'', JList [JObj [(''message'', JStr ''Authentication required'')]])]))"
            and err = "[(''message'', JStr ''Authentication required'')]" and rest = "[]"
            and m = "''Authentication required''" and describe = exc_name, OF u n s j]
       graphql_body_outcomes
         [where st = typed_state and token = "Some ''tok''" and t = "''tok''"
            and net = "always_reply (reply_with 200 (JObj [(''errors'', JList [])]))"
            and describe = exc_name, OF u n s j]
       graphql_body_outcomes
         [where st = typed_state and token = "Some ''tok''" and t = "''tok''"
            and net = "always_reply (reply_with 200
               (JObj [(''errors'', JList [JObj [(''message'', JInt 7)]])]))"
            and err = "[(''message'', JInt 7)]" and rest = "[]" and v = "JInt 7"
            and describe = exc_name, OF u n s j]
       graphql_body_outcomes
         [where st = typed_state and token = "Some ''tok''" and t = "''tok''"
            and net = "always_reply (reply_with 200 (JObj [(''data'', JObj [(''user'', JNull)])]))"
            and describe = exc_name, OF u n s j]
       graphql_body_outcomes
         [where st = typed_state and token = "Some ''tok''" and t = "''tok''"
            and net = "always_reply (reply_with 200
               (JObj [(''data'', JObj [(''user'', scenario_user)])]))"
            and d = "[(''user'', scenario_user)]" and u = scenario_user
            and describe = exc_name, OF u n s j]
  show ?thesis by - (rule c)
qed

text \<open>
  C8. With a user name and an access token: a transport failure gives the error
  \<^verbatim>\<open>Network Error:\<close> with its text; status 401 gives the error of an invalid access
  token, status 403 the error of forbidden access, and any other status outside 200 to
  299 gives \<^verbatim>\<open>HTTP Error:\<close> with the text of the status error. In each of these cases
  nothing is returned and one request has been sent. No call sends more than one request.
\<close>

theorem http_and_transport_outcomes:
  "(username st \<noteq> [] \<and> token = Some t \<and> t \<noteq> [] \<longrightarrow>
       (net (stats_request t (username st)) = Transport_failure detail \<longrightarrow>
            handle_submit token net describe st =
              (st\<lparr>is_loading := False, error_message := Some (''Network Error: '' @ detail)\<rparr>,
               None, [stats_request t (username st)]))
       \<and> (net (stats_request t (username st)) = Reply r \<and> status_code r = 401 \<longrightarrow>
            handle_submit token net describe st =
              (st\<lparr>is_loading := False, error_message :=
                    Some ''Invalid access token. Please check your configuration.''\<rparr>,
               None, [stats_request t (username st)]))
       \<and> (net (stats_request t (username st)) = Reply r \<and> status_code r = 403 \<longrightarrow>
            handle_submit token net describe st =
              (st\<lparr>is_loading := False, error_message :=
                    Some ''Access forbidden. Please check your permissions.''\<rparr>,
               None, [stats_request t (username st)]))
       \<and> (net (stats_request t (username st)) = Reply r \<and> \<not> is_success (status_code r)
            \<and> status_code r \<noteq> 401 \<and> status_code r \<noteq> 403 \<longrightarrow>
            handle_submit token net describe st =
              (st\<lparr>is_loading := False, error_message :=
                    Some (''HTTP Error: '' @ status_error_text r)\<rparr>,
               None, [stats_request t (username st)]))
       \<and> snd (snd (handle_submit token net describe st)) = [stats_request t (username st)])
   \<and> length (snd (snd (handle_submit token net describe st))) \<le> 1"
proof (intro conjI impI)
  show "length (snd (snd (handle_submit token net describe st))) \<le> 1"
    by (simp add: handle_submit_def Let_def)
qed (auto simp: handle_submit_guarded Let_def is_success_def split: net_reply.splits sum.splits)

theorem http_and_transport_outcomes_witness:
  "handle_submit (Some ''tok'') (\<lambda>_. Transport_failure ''timed out'') (\<lambda>_. []) typed_state
     = (typed_state\<lparr>error_message := Some ''Network Error: timed out''\<rparr>,
        None, [stats_request ''tok'' ''ada''])
   \<and> handle_submit (Some ''tok'') (\<lambda>_. Reply (reply_with 401 JNull)) (\<lambda>_. []) typed_state
     = (typed_state\<lparr>error_message :=
           Some ''Invalid access token. Please check your configuration.''\<rparr>,
        None, [stats_request ''tok'' ''ada''])
   \<and> handle_submit (Some ''tok'') (\<lambda>_. Reply (reply_with 403 JNull)) (\<lambda>_. []) typed_state
     = (typed_state\<lparr>error_message :=
           Some ''Access forbidden. Please check your permissions.''\<rparr>,
        None, [stats_request ''tok'' ''ada''])
   \<and> handle_submit (Some ''tok'') (\<lambda>_. Reply (reply_with 500 JNull)) (\<lambda>_. []) typed_state
     = (typed_state\<lparr>error_message := Some ''HTTP Error: status 500''\<rparr>,
        None, [stats_request ''tok'' ''ada''])
   \<and> \<not> is_success 500"
proof -
  have c: ?thesis
    by (simp add: submit_defs str_int_def str_nat.simps digit_char_def)
  from http_and_transport_outcomes
         [where st = typed_state and token = "Some ''tok''" and t = "''tok''"
            and net = "\<lambda>_. Transport_failure ''timed out''" and detail = "''timed out''"]
       http_and_transport_outcomes
         [where st = typed_state and token = "Some ''tok''" and t = "''tok''"
            and net = "\<lambda>_. Reply (reply_with 401 JNull)" and r = "reply_with 401 JNull"]
       http_and_transport_outcomes
         [where st = typed_state and token = "Some ''tok''" and t = "''tok''"
            and net = "\<lambda>_. Reply (reply_with 403 JNull)" and r = "reply_with 403 JNull"]
       http_and_transport_outcomes
         [where st = typed_state and token = "Some ''tok''" and t = "''tok''"
            and net = "\<lambda>_. Reply (reply_with 500 JNull)" and r = "reply_with 500 JNull"]
  show ?thesis by - (rule c)
qed

section \<open>\<^verbatim>\<open>process_stats\<close> leaves its argument as it is\<close>

text \<open>
  C9. A call of \<^verbatim>\<open>process_stats\<close>, whether it ends in the \<^verbatim>\<open>try\<close> block or in the
  \<^verbatim>\<open>except\<close> clause, writes to no object that existed before it: the store after the
  call is the store before it followed by the objects the call has created, so every
  address of the old store holds the same object. In a closed store the content of the
  record passed to the call (its user name, follower count, badges and posts, with the
  fields of every post) is therefore the same after the call, to any depth.
\<close>

theorem process_stats_does_not_mutate:
  "(\<exists>new. snd (process_stats_h st ud h) = h @ new)
   \<and> (\<forall>a < length h. lookup (snd (process_stats_h st ud h)) a = lookup h a)
   \<and> (closed_store h \<and> val_in h ud \<longrightarrow>
        snapshot n (snd (process_stats_h st ud h)) ud = snapshot n h ud)"
proof -
  from process_stats_h_extends [of st ud h] obtain new where
    e: "snd (process_stats_h st ud h) = h @ new" by blast
  show ?thesis
    unfolding e by (auto simp: lookup_append snapshot_append)
qed

theorem process_stats_does_not_mutate_witness:
  "closed_store scenario_store \<and> val_in scenario_store (VRef 6)
   \<and> snapshot 4 scenario_store (VRef 6) = scenario_user
   \<and> snapshot 4 (snd (process_stats_h initial_hstate (VRef 6) scenario_store)) (VRef 6)
       = scenario_user
   \<and> h_post_count (fst (process_stats_h initial_hstate (VRef 6) scenario_store)) = 1
   \<and> take (length scenario_store) (snd (process_stats_h initial_hstate (VRef 6) scenario_store))
       = scenario_store
   \<and> h_post_count (fst (process_stats_h initial_hstate (VRef 2) scenario_store)) = 0
   \<and> take (length scenario_store) (snd (process_stats_h initial_hstate (VRef 2) scenario_store))
       = scenario_store"
proof -
  have s: "snapshot 4 scenario_store (VRef 6) = scenario_user"
    by (simp add: eval_nat_numeral scenario_store_def scenario_user_def lookup_def)
  have c: ?thesis
    using scenario_closed s
          process_stats_does_not_mutate [of initial_hstate "VRef 6" scenario_store 4]
    by (simp add: scenario_run scenario_degraded_run)
  from process_stats_does_not_mutate [of initial_hstate "VRef 6" scenario_store 4]
       process_stats_does_not_mutate [of initial_hstate "VRef 2" scenario_store 4]
  show ?thesis by - (rule c)
qed

end
